theory Spec2Isabelle
  imports Complex_Main "HOL-Library.Code_Target_Numeral"
begin

text \<open>
  The filter and pagination state machine of the apartment listing application: the
  apartment list store, the filter store with its validators, the validation
  utilities, the response cache and the synchronisation of the filters with the
  URL. Every function is a state-passing translation of the TypeScript function
  of the same name; what a function reads from or writes to its surroundings
  (network, clock, \<open>localStorage\<close>, router) is an argument or a field of the state
  it returns. Definitions come first, properties after them.
\<close>

section \<open>JavaScript values shared by the stores, the cache and the URL layer\<close>

text \<open>
  A thrown value: either an \<open>Error\<close> object (with its \<open>message\<close>) or any other value.
  The stores only ask \<open>error instanceof Error ? error.message : default\<close>.
\<close>

datatype js_thrown = ErrorObj string | OtherThrown

text \<open>How an \<open>async\<close> function settles: its promise is fulfilled or rejected.\<close>

datatype completion = Fulfilled | Rejected js_thrown

subsection \<open>Printing and reading numbers\<close>

text \<open>
  \<open>Number.prototype.toString\<close> on an integral number: decimal digits with a leading
  minus sign for a negative one (below \<open>10\<^sup>2\<^sup>1\<close> in absolute value; from there on
  JavaScript prints an exponent). The apartment store and \<open>JSON.stringify\<close> print
  the integers of the model with it. The URL layer, whose numbers may have a
  fraction, takes the two platform functions \<open>toString\<close> and \<open>Number\<close> as parameters.
\<close>

definition digit_char :: "nat \<Rightarrow> char" where
  "digit_char d = char_of (48 + d)"

function nat_toString :: "nat \<Rightarrow> string" where
  "nat_toString n =
     (if n < 10 then [digit_char n]
      else nat_toString (n div 10) @ [digit_char (n mod 10)])"
  by pat_completeness auto
termination
  by (relation "measure (\<lambda>n. n)") auto

declare nat_toString.simps [simp del]

definition num_toString :: "int \<Rightarrow> string" where
  "num_toString i =
     (if i < 0 then CHR ''-'' # nat_toString (nat (- i)) else nat_toString (nat i))"

text \<open>\<open>Array.prototype.join(sep)\<close> on a list of strings.\<close>

fun join :: "string \<Rightarrow> string list \<Rightarrow> string" where
  "join sep [] = []"
| "join sep [x] = x"
| "join sep (x # y # ys) = x @ sep @ join sep (y # ys)"

text \<open>Decimal digits and the number that a string of them denotes.\<close>

definition is_digit :: "char \<Rightarrow> bool" where
  "is_digit c = (48 \<le> (of_char c :: nat) \<and> (of_char c :: nat) \<le> 57)"

definition digits_value :: "string \<Rightarrow> nat" where
  "digits_value s = foldl (\<lambda>acc c. 10 * acc + ((of_char c :: nat) - 48)) 0 s"

section \<open>Filter parameters and metadata (the application's core types)\<close>

text \<open>
  \<open>FilterParams\<close> and \<open>FilterMetadata\<close>; a \<open>[number, number]\<close> tuple is a pair. The
  filter store only compares numbers, so its number type is any linear order;
  the metadata fields carry the prefix \<open>meta_\<close> where their name is also a
  field of \<open>FilterParams\<close>.
\<close>

record 'n FilterParams =
  priceRange :: "'n \<times> 'n"
  areaRange :: "'n \<times> 'n"
  rooms :: "'n list"
  floors :: "'n \<times> 'n"

record 'n FilterMetadata =
  meta_priceRange :: "'n \<times> 'n"
  meta_areaRange :: "'n \<times> 'n"
  roomsAvailable :: "'n list"
  floorsRange :: "'n \<times> 'n"

section \<open>The apartment store (\<open>useApartmentStore\<close>)\<close>

record PaginationParams =
  page :: int
  limit :: int
  total :: int

text \<open>
  \<open>ApartmentState & { metadata }\<close>. The store never inspects an apartment, so the
  element type is a parameter. The fields \<open>loading\<close>, \<open>error\<close>, \<open>metadata\<close> carry the
  prefix \<open>apt_\<close> (the filter store has fields of the same names).
\<close>

record 'apt ApartmentState =
  apartments :: "'apt list"
  apt_loading :: bool
  apt_error :: "string option"
  pagination :: PaginationParams
  hasMore :: bool
  apt_metadata :: "int FilterMetadata option"

text \<open>\<open>ApartmentListResponse\<close>; \<open>meta.filters\<close> is tested for truthiness, hence an option.\<close>

record 'apt ApartmentListResponse =
  resp_apartments :: "'apt list"
  resp_total :: int
  resp_filters :: "int FilterMetadata option"

text \<open>
  The awaited call \<open>measureApiCall(() => cachedFetch('/api/apartments?' + params, ...))\<close>
  is the environment of the store: a function from the entries of the
  \<open>URLSearchParams\<close> object (names and values in the order they were appended) to
  the response, or to the value the call rejects with. \<open>measureApiCall\<close> rethrows
  what its argument throws.
\<close>

type_synonym 'apt api = "(string \<times> string) list \<Rightarrow> js_thrown + 'apt ApartmentListResponse"

definition canLoadMore :: "'apt ApartmentState \<Rightarrow> bool" where
  "canLoadMore s = (hasMore s \<and> \<not> apt_loading s)"

text \<open>Lines 78-100 of \<open>loadApartments\<close>: the query parameters of the request.\<close>

definition build_params ::
  "int FilterParams option \<Rightarrow> 'apt ApartmentState \<Rightarrow> (string \<times> string) list" where
  "build_params filters s =
     [(''page'', num_toString (page (pagination s))),
      (''limit'', num_toString (limit (pagination s)))] @
     (case filters of
        None \<Rightarrow> []
      | Some f \<Rightarrow>
          [(''priceMin'', num_toString (fst (priceRange f))),
           (''priceMax'', num_toString (snd (priceRange f))),
           (''areaMin'', num_toString (fst (areaRange f))),
           (''areaMax'', num_toString (snd (areaRange f)))] @
          (if length (rooms f) > 0
           then [(''rooms'', join '','' (map num_toString (rooms f)))] else []) @
          [(''floorMin'', num_toString (fst (floors f))),
           (''floorMax'', num_toString (snd (floors f)))])"

text \<open>
  The request of \<open>loadApartments(filters, reset)\<close> started in state \<open>s\<close>: a reset load
  asks for page 1, a continuation for the current page.
\<close>

definition request_of ::
  "int FilterParams option \<Rightarrow> bool \<Rightarrow> 'apt ApartmentState \<Rightarrow> (string \<times> string) list" where
  "request_of filters reset s =
     build_params filters
       (if reset then s\<lparr>pagination := (pagination s)\<lparr>page := 1\<rparr>\<rparr> else s)"

text \<open>
  The \<open>try\<close> block of \<open>loadApartments\<close>. \<open>Inl (e, s')\<close>: the block threw \<open>e\<close> in state
  \<open>s'\<close>; with a response of the declared type, the only statement that can throw
  is the awaited call.
\<close>

definition loadApartments_try ::
  "'apt api \<Rightarrow> int FilterParams option \<Rightarrow> bool \<Rightarrow> 'apt ApartmentState
     \<Rightarrow> (js_thrown \<times> 'apt ApartmentState) + 'apt ApartmentState" where
  "loadApartments_try fetch filters reset s =
     (let s1 = s\<lparr>apt_loading := True, apt_error := None\<rparr>;
          s2 = (if reset then s1\<lparr>pagination := (pagination s1)\<lparr>page := 1\<rparr>\<rparr> else s1)
      in case fetch (build_params filters s2) of
           Inl e \<Rightarrow> Inl (e, s2)
         | Inr response \<Rightarrow>
             (let s3 = (if reset then s2\<lparr>apartments := resp_apartments response\<rparr>
                        else s2\<lparr>apartments := apartments s2 @ resp_apartments response\<rparr>);
                  s4 = s3\<lparr>pagination := (pagination s3)\<lparr>total := resp_total response\<rparr>,
                          hasMore := (int (length (apartments s3)) < resp_total response)\<rparr>
              in Inr (case resp_filters response of
                        Some m \<Rightarrow> s4\<lparr>apt_metadata := Some m\<rparr>
                      | None \<Rightarrow> s4)))"

text \<open>The \<open>catch\<close> block of \<open>loadApartments\<close>: it records the message and does not rethrow.\<close>

definition loadApartments_catch ::
  "bool \<Rightarrow> js_thrown \<Rightarrow> 'apt ApartmentState \<Rightarrow> 'apt ApartmentState" where
  "loadApartments_catch reset e s =
     (let s1 = s\<lparr>apt_error :=
                  Some (case e of ErrorObj m \<Rightarrow> m | OtherThrown \<Rightarrow> ''Failed to load apartments'')\<rparr>
      in if reset then s1\<lparr>apartments := []\<rparr> else s1)"

text \<open>\<open>loadApartments(filters, reset)\<close>: \<open>try\<close>, \<open>catch\<close>, then \<open>finally\<close>.\<close>

definition loadApartments ::
  "'apt api \<Rightarrow> int FilterParams option \<Rightarrow> bool \<Rightarrow> 'apt ApartmentState
     \<Rightarrow> completion \<times> 'apt ApartmentState" where
  "loadApartments fetch filters reset s =
     (let s' = (case loadApartments_try fetch filters reset s of
                  Inr s1 \<Rightarrow> s1
                | Inl (e, s1) \<Rightarrow> loadApartments_catch reset e s1)
      in (Fulfilled, s'\<lparr>apt_loading := False\<rparr>))"

text \<open>
  \<open>loadMore()\<close>: its \<open>catch\<close> block runs when the promise of \<open>loadApartments\<close> is
  rejected, takes the increment back and rethrows.
\<close>

definition loadMore :: "'apt api \<Rightarrow> 'apt ApartmentState \<Rightarrow> completion \<times> 'apt ApartmentState" where
  "loadMore fetch s =
     (if \<not> canLoadMore s then (Fulfilled, s)
      else
        (let s1 = s\<lparr>pagination := (pagination s)\<lparr>page := page (pagination s) + 1\<rparr>\<rparr>
         in case loadApartments fetch None False s1 of
              (Fulfilled, s2) \<Rightarrow> (Fulfilled, s2)
            | (Rejected e, s2) \<Rightarrow>
                (Rejected e,
                 s2\<lparr>pagination := (pagination s2)\<lparr>page := page (pagination s2) - 1\<rparr>\<rparr>)))"

definition filterApartments ::
  "'apt api \<Rightarrow> int FilterParams option \<Rightarrow> 'apt ApartmentState
     \<Rightarrow> completion \<times> 'apt ApartmentState" where
  "filterApartments fetch filters s = loadApartments fetch filters True s"

definition resetApartments :: "'apt ApartmentState \<Rightarrow> 'apt ApartmentState" where
  "resetApartments s =
     s\<lparr>apartments := [], pagination := (pagination s)\<lparr>page := 1, total := 0\<rparr>,
       hasMore := True, apt_error := None\<rparr>"

text \<open>The state a fresh store starts in, and an environment whose fetch always fails.\<close>

definition initial_apartment_state :: "'apt ApartmentState" where
  "initial_apartment_state =
     \<lparr>apartments = [], apt_loading = False, apt_error = None,
      pagination = \<lparr>page = 1, limit = 20, total = 0\<rparr>,
      hasMore = True, apt_metadata = None\<rparr>"

definition failing_api :: "'apt api" where
  "failing_api params = Inl (ErrorObj ''Network Error'')"

section \<open>Validation utilities (\<open>validateFilterParams\<close>, in types/constants.ts)\<close>

text \<open>
  A message shown to the user. The source builds Russian sentences with template
  strings; a sentence is named here by an English key and keeps the numbers it
  interpolates as arguments. \<open>Text\<close> is any other string (a thrown error's message, a
  fixed fallback text).
\<close>

datatype 'n message = Text string | Template string "'n list"

text \<open>Truthiness of a message string: only the empty string is falsy.\<close>

fun message_truthy :: "'n message \<Rightarrow> bool" where
  "message_truthy (Text s) = (s \<noteq> [])"
| "message_truthy (Template k args) = True"

record 'n ValidationError =
  field :: string
  message :: "'n message"
  code :: string

record 'n ValidationResult =
  isValid :: bool
  errors :: "'n ValidationError list"

text \<open>\<open>FilterValidationRules\<close>: \<open>{min, max}\<close> is a record with fields \<open>rmin\<close>, \<open>rmax\<close>.\<close>

record 'n MinMax =
  rmin :: 'n
  rmax :: 'n

record 'n FilterValidationRules =
  rule_priceRange :: "'n MinMax"
  rule_areaRange :: "'n MinMax"
  rule_rooms_available :: "'n list"
  rule_floors :: "'n MinMax"

text \<open>
  \<open>validateFilterParams(filters, rules)\<close>: ten independent \<open>if\<close> statements, each
  pushing one error.
\<close>

definition validateFilterParams ::
  "('n::linorder) FilterParams \<Rightarrow> 'n FilterValidationRules \<Rightarrow> 'n ValidationResult" where
  "validateFilterParams filters rules =
     (let invalidRooms = filter (\<lambda>room. room \<notin> set (rule_rooms_available rules)) (rooms filters);
          errs =
            (if fst (priceRange filters) < rmin (rule_priceRange rules)
             then [\<lparr>field = ''priceRange'',
                    message = Template ''min price below'' [rmin (rule_priceRange rules)],
                    code = ''PRICE_MIN_INVALID''\<rparr>] else []) @
            (if snd (priceRange filters) > rmax (rule_priceRange rules)
             then [\<lparr>field = ''priceRange'',
                    message = Template ''max price above'' [rmax (rule_priceRange rules)],
                    code = ''PRICE_MAX_INVALID''\<rparr>] else []) @
            (if fst (priceRange filters) > snd (priceRange filters)
             then [\<lparr>field = ''priceRange'',
                    message = Template ''min price above max price'' [],
                    code = ''PRICE_RANGE_INVALID''\<rparr>] else []) @
            (if fst (areaRange filters) < rmin (rule_areaRange rules)
             then [\<lparr>field = ''areaRange'',
                    message = Template ''min area below'' [rmin (rule_areaRange rules)],
                    code = ''AREA_MIN_INVALID''\<rparr>] else []) @
            (if snd (areaRange filters) > rmax (rule_areaRange rules)
             then [\<lparr>field = ''areaRange'',
                    message = Template ''max area above'' [rmax (rule_areaRange rules)],
                    code = ''AREA_MAX_INVALID''\<rparr>] else []) @
            (if fst (areaRange filters) > snd (areaRange filters)
             then [\<lparr>field = ''areaRange'',
                    message = Template ''min area above max area'' [],
                    code = ''AREA_RANGE_INVALID''\<rparr>] else []) @
            (if length invalidRooms > 0
             then [\<lparr>field = ''rooms'',
                    message = Template ''rooms not allowed'' invalidRooms,
                    code = ''ROOMS_INVALID''\<rparr>] else []) @
            (if fst (floors filters) < rmin (rule_floors rules)
             then [\<lparr>field = ''floors'',
                    message = Template ''min floor below'' [rmin (rule_floors rules)],
                    code = ''FLOOR_MIN_INVALID''\<rparr>] else []) @
            (if snd (floors filters) > rmax (rule_floors rules)
             then [\<lparr>field = ''floors'',
                    message = Template ''max floor above'' [rmax (rule_floors rules)],
                    code = ''FLOOR_MAX_INVALID''\<rparr>] else []) @
            (if fst (floors filters) > snd (floors filters)
             then [\<lparr>field = ''floors'',
                    message = Template ''min floor above max floor'' [],
                    code = ''FLOOR_RANGE_INVALID''\<rparr>] else [])
      in \<lparr>isValid = (length errs = 0), errors = errs\<rparr>)"

text \<open>The codes a validation result reports, in order.\<close>

definition codes :: "'n ValidationResult \<Rightarrow> string list" where
  "codes r = map code (errors r)"

section \<open>The filter store (\<open>useFilterStore\<close>, stores/filterStore.ts)\<close>

record 'n FilterState =
  filters :: "'n FilterParams"
  metadata :: "'n FilterMetadata option"
  loading :: bool
  error :: "'n message option"
  isActive :: bool

text \<open>
  The store together with what its actions read and write outside it: whether the
  code runs in the browser (\<open>import.meta.client\<close>), the clock (\<open>Date.now()\<close>), whether
  a \<open>localStorage\<close> call throws (quota, privacy mode; the source catches and
  logs it), and the item \<open>apartment-filters\<close> of \<open>localStorage\<close>: the saved filters
  with their timestamp.
\<close>

record 'n FilterWorld =
  store :: "'n FilterState"
  client :: bool
  clock :: int
  storage_throws :: bool
  stored :: "('n FilterParams \<times> int) option"

text \<open>\<open>useFilterPersistence().saveFilters\<close> and \<open>clearFilters\<close>.\<close>

definition saveFilters :: "'n FilterParams \<Rightarrow> 'n FilterWorld \<Rightarrow> 'n FilterWorld" where
  "saveFilters fs w =
     (if \<not> client w then w
      else if storage_throws w then w
      else w\<lparr>stored := Some (fs, clock w)\<rparr>)"

definition clearFilters :: "'n FilterWorld \<Rightarrow> 'n FilterWorld" where
  "clearFilters w =
     (if \<not> client w then w
      else if storage_throws w then w
      else w\<lparr>stored := None\<rparr>)"

definition saveFiltersToStorage :: "'n FilterWorld \<Rightarrow> 'n FilterWorld" where
  "saveFiltersToStorage w = saveFilters (filters (store w)) w"

text \<open>The getter \<open>hasActiveFilters\<close>.\<close>

definition hasActiveFilters :: "'n FilterState \<Rightarrow> bool" where
  "hasActiveFilters s =
     (case metadata s of
        None \<Rightarrow> False
      | Some m \<Rightarrow>
          (let priceChanged = (fst (priceRange (filters s)) \<noteq> fst (meta_priceRange m)
                               \<or> snd (priceRange (filters s)) \<noteq> snd (meta_priceRange m));
               areaChanged = (fst (areaRange (filters s)) \<noteq> fst (meta_areaRange m)
                              \<or> snd (areaRange (filters s)) \<noteq> snd (meta_areaRange m));
               roomsSelected = (length (rooms (filters s)) > 0);
               floorsChanged = (fst (floors (filters s)) \<noteq> fst (floorsRange m)
                                \<or> snd (floors (filters s)) \<noteq> snd (floorsRange m))
           in priceChanged \<or> areaChanged \<or> roomsSelected \<or> floorsChanged))"

text \<open>
  The four validators. Each returns its verdict and the store, whose \<open>error\<close> field it
  sets when it rejects; with no metadata it returns \<open>false\<close> at once.
\<close>

definition validatePriceRange ::
  "('n::linorder) \<times> 'n \<Rightarrow> 'n FilterState \<Rightarrow> bool \<times> 'n FilterState" where
  "validatePriceRange rng s =
     (case metadata s of
        None \<Rightarrow> (False, s)
      | Some m \<Rightarrow>
          (let mn = fst rng; mx = snd rng;
               metaMin = fst (meta_priceRange m); metaMax = snd (meta_priceRange m)
           in if mn < metaMin \<or> mx > metaMax \<or> mn > mx
              then (False, s\<lparr>error := Some (Template ''price must be between'' [metaMin, metaMax])\<rparr>)
              else (True, s)))"

definition validateAreaRange ::
  "('n::linorder) \<times> 'n \<Rightarrow> 'n FilterState \<Rightarrow> bool \<times> 'n FilterState" where
  "validateAreaRange rng s =
     (case metadata s of
        None \<Rightarrow> (False, s)
      | Some m \<Rightarrow>
          (let mn = fst rng; mx = snd rng;
               metaMin = fst (meta_areaRange m); metaMax = snd (meta_areaRange m)
           in if mn < metaMin \<or> mx > metaMax \<or> mn > mx
              then (False, s\<lparr>error := Some (Template ''area must be between'' [metaMin, metaMax])\<rparr>)
              else (True, s)))"

definition validateRooms ::
  "'n list \<Rightarrow> 'n FilterState \<Rightarrow> bool \<times> 'n FilterState" where
  "validateRooms rs s =
     (case metadata s of
        None \<Rightarrow> (False, s)
      | Some m \<Rightarrow>
          (let invalidRooms = filter (\<lambda>room. room \<notin> set (roomsAvailable m)) rs
           in if length invalidRooms > 0
              then (False, s\<lparr>error := Some (Template ''rooms not available'' invalidRooms)\<rparr>)
              else (True, s)))"

definition validateFloorsRange ::
  "('n::linorder) \<times> 'n \<Rightarrow> 'n FilterState \<Rightarrow> bool \<times> 'n FilterState" where
  "validateFloorsRange rng s =
     (case metadata s of
        None \<Rightarrow> (False, s)
      | Some m \<Rightarrow>
          (let mn = fst rng; mx = snd rng;
               metaMin = fst (floorsRange m); metaMax = snd (floorsRange m)
           in if mn < metaMin \<or> mx > metaMax \<or> mn > mx
              then (False, s\<lparr>error := Some (Template ''floor must be between'' [metaMin, metaMax])\<rparr>)
              else (True, s)))"

text \<open>
  The four setters: on a positive verdict they replace the field, recompute
  \<open>isActive\<close>, clear \<open>error\<close> and save; otherwise they do nothing more than the
  validator did.
\<close>

definition updatePriceRange ::
  "('n::linorder) \<times> 'n \<Rightarrow> 'n FilterWorld \<Rightarrow> 'n FilterWorld" where
  "updatePriceRange rng w =
     (case validatePriceRange rng (store w) of
        (True, s1) \<Rightarrow>
          (let s2 = s1\<lparr>filters := (filters s1)\<lparr>priceRange := rng\<rparr>\<rparr>;
               s3 = s2\<lparr>isActive := hasActiveFilters s2\<rparr>;
               s4 = s3\<lparr>error := None\<rparr>
           in saveFiltersToStorage (w\<lparr>store := s4\<rparr>))
      | (False, s1) \<Rightarrow> w\<lparr>store := s1\<rparr>)"

definition updateAreaRange ::
  "('n::linorder) \<times> 'n \<Rightarrow> 'n FilterWorld \<Rightarrow> 'n FilterWorld" where
  "updateAreaRange rng w =
     (case validateAreaRange rng (store w) of
        (True, s1) \<Rightarrow>
          (let s2 = s1\<lparr>filters := (filters s1)\<lparr>areaRange := rng\<rparr>\<rparr>;
               s3 = s2\<lparr>isActive := hasActiveFilters s2\<rparr>;
               s4 = s3\<lparr>error := None\<rparr>
           in saveFiltersToStorage (w\<lparr>store := s4\<rparr>))
      | (False, s1) \<Rightarrow> w\<lparr>store := s1\<rparr>)"

definition updateRooms :: "'n list \<Rightarrow> 'n FilterWorld \<Rightarrow> 'n FilterWorld" where
  "updateRooms rs w =
     (case validateRooms rs (store w) of
        (True, s1) \<Rightarrow>
          (let s2 = s1\<lparr>filters := (filters s1)\<lparr>rooms := rs\<rparr>\<rparr>;
               s3 = s2\<lparr>isActive := hasActiveFilters s2\<rparr>;
               s4 = s3\<lparr>error := None\<rparr>
           in saveFiltersToStorage (w\<lparr>store := s4\<rparr>))
      | (False, s1) \<Rightarrow> w\<lparr>store := s1\<rparr>)"

definition updateFloorsRange ::
  "('n::linorder) \<times> 'n \<Rightarrow> 'n FilterWorld \<Rightarrow> 'n FilterWorld" where
  "updateFloorsRange rng w =
     (case validateFloorsRange rng (store w) of
        (True, s1) \<Rightarrow>
          (let s2 = s1\<lparr>filters := (filters s1)\<lparr>floors := rng\<rparr>\<rparr>;
               s3 = s2\<lparr>isActive := hasActiveFilters s2\<rparr>;
               s4 = s3\<lparr>error := None\<rparr>
           in saveFiltersToStorage (w\<lparr>store := s4\<rparr>))
      | (False, s1) \<Rightarrow> w\<lparr>store := s1\<rparr>)"

text \<open>
  \<open>toggleRoom(roomCount)\<close>: \<open>indexOf\<close> finds the first occurrence, \<open>splice(index, 1)\<close>
  removes it, \<open>push\<close> appends, \<open>sort((a, b) => a - b)\<close> sorts ascending. No validator
  is called and \<open>error\<close> is not touched.
\<close>

definition toggleRoom :: "('n::linorder) \<Rightarrow> 'n FilterWorld \<Rightarrow> 'n FilterWorld" where
  "toggleRoom roomCount w =
     (let s = store w;
          rs = rooms (filters s);
          rs1 = (if roomCount \<in> set rs then remove1 roomCount rs else rs @ [roomCount]);
          s1 = s\<lparr>filters := (filters s)\<lparr>rooms := sort rs1\<rparr>\<rparr>;
          s2 = s1\<lparr>isActive := hasActiveFilters s1\<rparr>
      in saveFiltersToStorage (w\<lparr>store := s2\<rparr>))"

definition resetFilters :: "'n FilterWorld \<Rightarrow> 'n FilterWorld" where
  "resetFilters w =
     (case metadata (store w) of
        None \<Rightarrow> w
      | Some m \<Rightarrow>
          clearFilters
            (w\<lparr>store := (store w)\<lparr>filters := \<lparr>priceRange = meta_priceRange m,
                                                 areaRange = meta_areaRange m,
                                                 rooms = [],
                                                 floors = floorsRange m\<rparr>,
                                    isActive := False, error := None\<rparr>\<rparr>))"

text \<open>
  \<open>validateAllFilters()\<close>: the four validators run in turn on the current filters;
  each rejection pushes one error whose message is \<open>this.error || <fallback>\<close>.
\<close>

definition error_or :: "'n FilterState \<Rightarrow> string \<Rightarrow> 'n message" where
  "error_or s fallback =
     (case error s of
        Some m \<Rightarrow> (if message_truthy m then m else Text fallback)
      | None \<Rightarrow> Text fallback)"

definition validateAllFilters ::
  "('n::linorder) FilterState \<Rightarrow> 'n ValidationResult \<times> 'n FilterState" where
  "validateAllFilters s =
     (let (ok1, s1) = validatePriceRange (priceRange (filters s)) s;
          e1 = (if \<not> ok1 then [\<lparr>field = ''priceRange'',
                                  message = error_or s1 ''Invalid price range'',
                                  code = ''INVALID_PRICE_RANGE''\<rparr>] else []);
          (ok2, s2) = validateAreaRange (areaRange (filters s1)) s1;
          e2 = (if \<not> ok2 then [\<lparr>field = ''areaRange'',
                                  message = error_or s2 ''Invalid area range'',
                                  code = ''INVALID_AREA_RANGE''\<rparr>] else []);
          (ok3, s3) = validateRooms (rooms (filters s2)) s2;
          e3 = (if \<not> ok3 then [\<lparr>field = ''rooms'',
                                  message = error_or s3 ''Invalid rooms selection'',
                                  code = ''INVALID_ROOMS''\<rparr>] else []);
          (ok4, s4) = validateFloorsRange (floors (filters s3)) s3;
          e4 = (if \<not> ok4 then [\<lparr>field = ''floors'',
                                  message = error_or s4 ''Invalid floors range'',
                                  code = ''INVALID_FLOORS_RANGE''\<rparr>] else []);
          errs = e1 @ e2 @ e3 @ e4
      in (\<lparr>isValid = (length errs = 0), errors = errs\<rparr>, s4))"

section \<open>Values read from storage, the URL or the network\<close>

text \<open>
  A value as \<open>JSON.parse\<close> or the router delivers it. An absent property
  (\<open>undefined\<close>) is \<open>None\<close> of an option at the place where it is read.
\<close>

datatype 'n json =
    JNull
  | JBool bool
  | JNum 'n
  | JStr string
  | JArr "'n json list"
  | JObj "(string \<times> 'n json) list"

text \<open>Truthiness, as \<open>if (v)\<close> and \<open>v && ...\<close> test it.\<close>

fun js_truthy :: "('n::zero) json \<Rightarrow> bool" where
  "js_truthy JNull = False"
| "js_truthy (JBool b) = b"
| "js_truthy (JNum n) = (n \<noteq> 0)"
| "js_truthy (JStr s) = (s \<noteq> [])"
| "js_truthy (JArr xs) = True"
| "js_truthy (JObj kvs) = True"

text \<open>\<open>Partial<FilterParams>\<close> as it arrives from \<open>localStorage\<close> or from the URL.\<close>

record 'n PartialFilterParams =
  p_priceRange :: "'n json option"
  p_areaRange :: "'n json option"
  p_rooms :: "'n json option"
  p_floors :: "'n json option"

subsection \<open>validateSavedFilters\<close>

text \<open>
  One range block of \<open>validateSavedFilters\<close>. The first equation is the case in
  which every test of the source passes up to the comparison: the value is truthy,
  \<open>Array.isArray\<close> holds, \<open>length === 2\<close>, and both elements have
  \<open>typeof ... === "number"\<close>. In every other case the metadata range, with which
  \<open>validatedFilters\<close> was initialised, stays.
\<close>

fun savedRange :: "('n::linorder) json option \<Rightarrow> 'n \<times> 'n \<Rightarrow> 'n \<times> 'n" where
  "savedRange (Some (JArr [JNum mn, JNum mx])) meta =
     (if mn \<ge> fst meta \<and> mx \<le> snd meta \<and> mn \<le> mx then (mn, mx) else meta)"
| "savedRange saved meta = meta"

text \<open>
  The rooms block: an array keeps the elements that are numbers and are included in
  \<open>roomsAvailable\<close>; anything else leaves the initial empty list.
\<close>

fun savedRooms :: "'n json option \<Rightarrow> 'n list \<Rightarrow> 'n list" where
  "savedRooms (Some (JArr xs)) available =
     List.map_filter
       (\<lambda>room. case room of
                  JNum r \<Rightarrow> (if r \<in> set available then Some r else None)
                | _ \<Rightarrow> None) xs"
| "savedRooms saved available = []"

definition validateSavedFilters ::
  "('n::linorder) PartialFilterParams \<Rightarrow> 'n FilterMetadata \<Rightarrow> 'n FilterParams" where
  "validateSavedFilters savedFilters md =
     \<lparr>priceRange = savedRange (p_priceRange savedFilters) (meta_priceRange md),
      areaRange = savedRange (p_areaRange savedFilters) (meta_areaRange md),
      rooms = savedRooms (p_rooms savedFilters) (roomsAvailable md),
      floors = savedRange (p_floors savedFilters) (floorsRange md)\<rparr>"

definition applyUrlFilters ::
  "('n::linorder) PartialFilterParams \<Rightarrow> 'n FilterWorld \<Rightarrow> 'n FilterWorld" where
  "applyUrlFilters urlFilters w =
     (case metadata (store w) of
        None \<Rightarrow> w
      | Some m \<Rightarrow>
          (let s1 = (store w)\<lparr>filters := validateSavedFilters urlFilters m\<rparr>;
               s2 = s1\<lparr>isActive := hasActiveFilters s1\<rparr>
           in w\<lparr>store := s2\<lparr>error := None\<rparr>\<rparr>))"

text \<open>
  The test that lets a saved range through: both bounds inside the metadata range
  and the range not inverted.
\<close>

definition accepted_range :: "('n::linorder) \<times> 'n \<Rightarrow> 'n \<times> 'n \<Rightarrow> bool" where
  "accepted_range meta r = (fst meta \<le> fst r \<and> snd r \<le> snd meta \<and> fst r \<le> snd r)"

text \<open>
  Clamping, in the words of the specification: a bound below the minimum becomes the
  minimum, a bound above the maximum becomes the maximum, a bound in range stays.
  This is the reference that \<open>savedRange\<close> is compared with; the store does not
  call it.
\<close>

definition spec_clamp :: "('n::linorder) \<Rightarrow> 'n \<Rightarrow> 'n \<Rightarrow> 'n" where
  "spec_clamp lo hi x = (if x < lo then lo else if x > hi then hi else x)"

definition spec_clamped_range :: "('n::linorder) \<times> 'n \<Rightarrow> 'n \<times> 'n \<Rightarrow> 'n \<times> 'n" where
  "spec_clamped_range meta r =
     (spec_clamp (fst meta) (snd meta) (fst r), spec_clamp (fst meta) (snd meta) (snd r))"

section \<open>The cache layer (\<open>useApiCache\<close>, composables/useApiCache.ts)\<close>

subsection \<open>JSON.stringify and btoa\<close>

text \<open>
  \<open>JSON.stringify\<close> on the values of the model. A string is quoted; the quote, the
  backslash and the control characters are escaped, every other character is
  copied. An array lists its elements and an object its own properties, separated
  by commas, with no white space.
\<close>

definition hex_digit :: "nat \<Rightarrow> char" where
  "hex_digit n = (if n < 10 then char_of (48 + n) else char_of (87 + n))"

definition escape_char :: "char \<Rightarrow> string" where
  "escape_char c =
     (let n = (of_char c :: nat)
      in if c = CHR 0x22 then [CHR 0x5C, CHR 0x22]
         else if c = CHR 0x5C then [CHR 0x5C, CHR 0x5C]
         else if n = 8 then [CHR 0x5C, CHR ''b'']
         else if n = 9 then [CHR 0x5C, CHR ''t'']
         else if n = 10 then [CHR 0x5C, CHR ''n'']
         else if n = 12 then [CHR 0x5C, CHR ''f'']
         else if n = 13 then [CHR 0x5C, CHR ''r'']
         else if n < 32
           then [CHR 0x5C, CHR ''u'', CHR ''0'', CHR ''0'', hex_digit (n div 16), hex_digit (n mod 16)]
         else [c])"

definition quote :: "string \<Rightarrow> string" where
  "quote s = [CHR 0x22] @ concat (map escape_char s) @ [CHR 0x22]"

text \<open>
  The own properties of an object, in the order in which JavaScript enumerates them
  (\<open>OrdinaryOwnPropertyKeys\<close>). The list in \<open>JObj\<close> is the sequence of assignments
  that built the object: assigning to a key that exists replaces the value and
  keeps the key's place, assigning to a new key creates the property after the
  others. The enumeration gives first the keys that are array indices (the
  canonical decimal text of an integer from 0 to \<open>2\<^sup>3\<^sup>2 - 2\<close>) in ascending numeric
  order, then every other key in the order of creation.
\<close>

definition is_array_index :: "string \<Rightarrow> bool" where
  "is_array_index k =
     (k \<noteq> [] \<and> list_all is_digit k \<and> (length k = 1 \<or> hd k \<noteq> CHR ''0'')
      \<and> digits_value k < 4294967295)"

fun assign :: "string \<Rightarrow> 'a \<Rightarrow> (string \<times> 'a) list \<Rightarrow> (string \<times> 'a) list" where
  "assign k v [] = [(k, v)]"
| "assign k v (p # ps) = (if fst p = k then (k, v) # ps else p # assign k v ps)"

definition created :: "(string \<times> 'a) list \<Rightarrow> (string \<times> 'a) list" where
  "created kvs = foldl (\<lambda>ps kv. assign (fst kv) (snd kv) ps) [] kvs"

definition own_properties :: "(string \<times> 'a) list \<Rightarrow> (string \<times> 'a) list" where
  "own_properties kvs =
     (let ps = created kvs
      in sort_key (\<lambda>kv. digits_value (fst kv)) (filter (\<lambda>kv. is_array_index (fst kv)) ps)
         @ filter (\<lambda>kv. \<not> is_array_index (fst kv)) ps)"

function JSON_stringify :: "int json \<Rightarrow> string" where
  "JSON_stringify JNull = ''null''"
| "JSON_stringify (JBool b) = (if b then ''true'' else ''false'')"
| "JSON_stringify (JNum n) = num_toString n"
| "JSON_stringify (JStr s) = quote s"
| "JSON_stringify (JArr xs) = ''['' @ join '','' (map JSON_stringify xs) @ '']''"
| "JSON_stringify (JObj kvs) =
     ''{'' @ join '','' (map (\<lambda>kv. quote (fst kv) @ '':'' @ JSON_stringify (snd kv))
                             (own_properties kvs)) @ ''}''"
  by pat_completeness auto
termination
proof (relation "measure size")
  show "wf (measure (size :: int json \<Rightarrow> nat))"
    by simp
next
  fix xs :: "int json list" and x
  assume "x \<in> set xs"
  then show "(x, JArr xs) \<in> measure size"
    by (induction xs) auto
next
  fix kvs :: "(string \<times> int json) list" and kv
  assume kv: "kv \<in> set (own_properties kvs)"
  have assign_set: "set (assign k v ps) \<subseteq> insert (k, v) (set ps)"
    for k and v :: "int json" and ps
    by (induction ps) auto
  have fold_set: "set (foldl (\<lambda>ps kv. assign (fst kv) (snd kv) ps) acc ys) \<subseteq> set acc \<union> set ys"
    for acc ys :: "(string \<times> int json) list"
  proof (induction ys arbitrary: acc)
    case Nil
    show ?case by simp
  next
    case (Cons y ys)
    have "set (assign (fst y) (snd y) acc) \<subseteq> insert y (set acc)"
      using assign_set [of "fst y" "snd y" acc] by simp
    with Cons [of "assign (fst y) (snd y) acc"] show ?case
      by auto
  qed
  have "set (own_properties kvs) \<subseteq> set (created kvs)"
    by (auto simp: own_properties_def Let_def)
  also have "\<dots> \<subseteq> set kvs"
    using fold_set [of "[]" kvs] by (simp add: created_def)
  finally have "kv \<in> set kvs"
    using kv by auto
  then have "size (snd kv) < size (JObj kvs)"
    by (induction kvs) (auto simp: less_Suc_eq_le)
  then show "(snd kv, JObj kvs) \<in> measure size"
    by simp
qed

text \<open>
  \<open>btoa\<close>: base64 of the character codes, three bytes to four characters, padded
  with \<open>=\<close>. A \<open>char\<close> is one byte, so every string of the model is in the range
  \<open>btoa\<close> accepts.
\<close>

definition b64_alphabet :: string where
  "b64_alphabet = ''ABCDEFGHIJKLMNOPQRSTUVWXYZabcdefghijklmnopqrstuvwxyz0123456789+/''"

definition b64_char :: "nat \<Rightarrow> char" where
  "b64_char n = b64_alphabet ! n"

fun b64_encode :: "nat list \<Rightarrow> string" where
  "b64_encode [] = []"
| "b64_encode [a] =
     [b64_char (a div 4), b64_char ((a mod 4) * 16), CHR ''='', CHR ''='']"
| "b64_encode [a, b] =
     [b64_char (a div 4), b64_char ((a mod 4) * 16 + b div 16),
      b64_char ((b mod 16) * 4), CHR ''='']"
| "b64_encode (a # b # c # bytes) =
     b64_char (a div 4) # b64_char ((a mod 4) * 16 + b div 16) #
     b64_char ((b mod 16) * 4 + c div 64) # b64_char (c mod 64) # b64_encode bytes"

definition btoa :: "string \<Rightarrow> string" where
  "btoa s = b64_encode (map of_char s)"

subsection \<open>The cache\<close>

record 'n CacheEntry =
  data :: "'n json"
  timestamp :: int
  ttl :: int

record CacheOptions =
  opt_ttl :: "int option"
  opt_useLocalStorage :: "bool option"
  opt_key :: "string option"

text \<open>
  An item of \<open>localStorage\<close>, by what reading it does: the empty string (falsy), a
  string on which \<open>JSON.parse\<close> or the validity test throws, a string that parses
  to a value without numeric \<open>timestamp\<close> and \<open>ttl\<close> (never valid), or an entry
  written by \<open>setCache\<close>.
\<close>

datatype 'n ls_item = LsEmpty | LsUnparsable | LsOther | LsEntry "'n CacheEntry"

text \<open>
  What the cache functions read and write: the in-memory map, \<open>localStorage\<close>,
  whether \<open>window\<close> is defined, whether \<open>localStorage\<close> calls throw (the source
  catches and logs), and the URLs requested through \<open>$fetch\<close> so far.
\<close>

record 'n CacheWorld =
  memoryCache :: "string \<Rightarrow> 'n CacheEntry option"
  localStorage :: "string \<Rightarrow> 'n ls_item option"
  has_window :: bool
  ls_throws :: bool
  requests :: "string list"

text \<open>\<open>params ? JSON.stringify(params) : ''\<close>; an object is always truthy.\<close>

definition paramString :: "(string \<times> int json) list option \<Rightarrow> string" where
  "paramString params =
     (case params of Some ps \<Rightarrow> JSON_stringify (JObj ps) | None \<Rightarrow> [])"

definition generateCacheKey :: "string \<Rightarrow> (string \<times> int json) list option \<Rightarrow> string" where
  "generateCacheKey url params = ''api_cache_'' @ url @ ''_'' @ btoa (paramString params)"

definition isCacheValid :: "int \<Rightarrow> 'n CacheEntry \<Rightarrow> bool" where
  "isCacheValid now entry = (now - timestamp entry < ttl entry)"

text \<open>\<open>getFromCache(key, useLocalStorage)\<close> at time \<open>now\<close>; \<open>null\<close> is \<open>JNull\<close>.\<close>

definition getFromStorage ::
  "int \<Rightarrow> string \<Rightarrow> 'n CacheWorld \<Rightarrow> 'n json \<times> 'n CacheWorld" where
  "getFromStorage now key w =
     (if ls_throws w then (JNull, w)
      else case localStorage w key of
             None \<Rightarrow> (JNull, w)
           | Some LsEmpty \<Rightarrow> (JNull, w)
           | Some LsUnparsable \<Rightarrow> (JNull, w)
           | Some LsOther \<Rightarrow> (JNull, w\<lparr>localStorage := (localStorage w)(key := None)\<rparr>)
           | Some (LsEntry entry) \<Rightarrow>
               (if isCacheValid now entry
                then (data entry, w\<lparr>memoryCache := (memoryCache w)(key \<mapsto> entry)\<rparr>)
                else (JNull, w\<lparr>localStorage := (localStorage w)(key := None)\<rparr>)))"

definition getFromCache ::
  "int \<Rightarrow> string \<Rightarrow> bool \<Rightarrow> 'n CacheWorld \<Rightarrow> 'n json \<times> 'n CacheWorld" where
  "getFromCache now key useLocalStorage w =
     (case memoryCache w key of
        Some memoryEntry \<Rightarrow>
          (if isCacheValid now memoryEntry then (data memoryEntry, w)
           else if useLocalStorage \<and> has_window w then getFromStorage now key w
           else (JNull, w))
      | None \<Rightarrow>
          (if useLocalStorage \<and> has_window w then getFromStorage now key w
           else (JNull, w)))"

text \<open>
  The unexpired entry that a lookup serves, if there is one: the in-memory entry when
  it is valid, else, when \<open>localStorage\<close> is consulted and readable, the stored
  entry when that is valid.
\<close>

definition unexpired_entry ::
  "int \<Rightarrow> string \<Rightarrow> bool \<Rightarrow> 'n CacheWorld \<Rightarrow> 'n CacheEntry option" where
  "unexpired_entry now key useLocalStorage w =
     (let in_storage =
            (if useLocalStorage \<and> has_window w \<and> \<not> ls_throws w
             then (case localStorage w key of
                     Some (LsEntry entry) \<Rightarrow> (if isCacheValid now entry then Some entry else None)
                   | _ \<Rightarrow> None)
             else None)
      in case memoryCache w key of
           Some memoryEntry \<Rightarrow> (if isCacheValid now memoryEntry then Some memoryEntry else in_storage)
         | None \<Rightarrow> in_storage)"

text \<open>\<open>setCache(key, data, options)\<close> at time \<open>now\<close>.\<close>

definition setCache ::
  "int \<Rightarrow> string \<Rightarrow> 'n json \<Rightarrow> CacheOptions \<Rightarrow> 'n CacheWorld \<Rightarrow> 'n CacheWorld" where
  "setCache now key dat options w =
     (let ttl' = (case opt_ttl options of Some t \<Rightarrow> t | None \<Rightarrow> 5 * 60 * 1000);
          useLocalStorage = (case opt_useLocalStorage options of Some b \<Rightarrow> b | None \<Rightarrow> False);
          entry = \<lparr>data = dat, timestamp = now, ttl = ttl'\<rparr>;
          w1 = w\<lparr>memoryCache := (memoryCache w)(key \<mapsto> entry)\<rparr>
      in if useLocalStorage \<and> has_window w1
         then (if ls_throws w1 then w1
               else w1\<lparr>localStorage := (localStorage w1)(key \<mapsto> LsEntry entry)\<rparr>)
         else w1)"

definition clearCache :: "string \<Rightarrow> bool \<Rightarrow> 'n CacheWorld \<Rightarrow> 'n CacheWorld" where
  "clearCache key useLocalStorage w =
     (let w1 = w\<lparr>memoryCache := (memoryCache w)(key := None)\<rparr>
      in if useLocalStorage \<and> has_window w1 \<and> \<not> ls_throws w1
         then w1\<lparr>localStorage := (localStorage w1)(key := None)\<rparr>
         else w1)"

text \<open>
  The options of \<open>cachedFetch\<close>: the \<open>cache\<close> property and the rest, which goes to
  \<open>$fetch\<close> and into the cache key.
\<close>

record FetchOptions =
  opts_cache :: "CacheOptions option"
  opts_rest :: "(string \<times> int json) list"

text \<open>\<open>$fetch(url, fetchOptions)\<close>: the response body, or the value it rejects with.\<close>

type_synonym fetcher = "string \<Rightarrow> (string \<times> int json) list \<Rightarrow> js_thrown + int json"

text \<open>
  \<open>cachedFetch(url, options)\<close>. \<open>now\<close> is the clock at the lookup, \<open>later\<close> the clock
  when the response arrives. \<open>Inl\<close> is a rejected promise. The destructuring
  default \<open>cache: cacheOptions = {}\<close>, the parameter default
  \<open>useLocalStorage = false\<close> and the key \<open>generateCacheKey(url, fetchOptions)\<close> come
  first.
\<close>

definition cacheOptions_of :: "FetchOptions \<Rightarrow> CacheOptions" where
  "cacheOptions_of options =
     (case opts_cache options of
        Some c \<Rightarrow> c
      | None \<Rightarrow> \<lparr>opt_ttl = None, opt_useLocalStorage = None, opt_key = None\<rparr>)"

definition useLocalStorage_of :: "CacheOptions \<Rightarrow> bool" where
  "useLocalStorage_of cacheOptions =
     (case opt_useLocalStorage cacheOptions of Some b \<Rightarrow> b | None \<Rightarrow> False)"

definition cacheKey_of :: "string \<Rightarrow> FetchOptions \<Rightarrow> string" where
  "cacheKey_of url options = generateCacheKey url (Some (opts_rest options))"

definition cachedFetch ::
  "fetcher \<Rightarrow> int \<Rightarrow> int \<Rightarrow> string \<Rightarrow> FetchOptions \<Rightarrow> int CacheWorld
     \<Rightarrow> (js_thrown + int json) \<times> int CacheWorld" where
  "cachedFetch fetch now later url options w =
     (let cacheOptions = cacheOptions_of options;
          fetchOptions = opts_rest options;
          cacheKey = cacheKey_of url options;
          (cached, w1) = getFromCache now cacheKey (useLocalStorage_of cacheOptions) w
      in if js_truthy cached then (Inr cached, w1)
         else
           (let w2 = w1\<lparr>requests := requests w1 @ [url]\<rparr>
            in case fetch url fetchOptions of
                 Inr response \<Rightarrow> (Inr response, setCache later cacheKey response cacheOptions w2)
               | Inl err \<Rightarrow>
                   (case memoryCache w2 cacheKey of
                      Some staleCache \<Rightarrow> (Inr (data staleCache), w2)
                    | None \<Rightarrow> (Inl err, w2))))"

section \<open>URL synchronisation (\<open>useUrlFilters\<close>), client side\<close>

text \<open>
  A query value of the router: a string or an array of strings. \<open>route.query\<close> and
  the object handed to \<open>router.replace\<close> are association lists in insertion order.
\<close>

datatype qval = QStr string | QArr "string list"

type_synonym query = "(string \<times> qval) list"

fun qval_truthy :: "qval \<Rightarrow> bool" where
  "qval_truthy (QStr s) = (s \<noteq> [])"
| "qval_truthy (QArr xs) = True"

text \<open>
  The numbers of the filters are JavaScript numbers, which may have a fraction. The
  two platform functions that the URL layer calls on them are parameters of the
  model: \<open>toStr\<close> is \<open>Number.prototype.toString\<close>, and \<open>toNum\<close> is \<open>Number(...)\<close> on a
  string, with \<open>None\<close> for \<open>NaN\<close>. \<open>Number\<close> of an array is \<open>Number\<close> of its elements
  joined by commas.
\<close>

fun js_Number :: "(string \<Rightarrow> 'n option) \<Rightarrow> qval \<Rightarrow> 'n option" where
  "js_Number toNum (QStr s) = toNum s"
| "js_Number toNum (QArr xs) = toNum (join '','' xs)"

text \<open>One range block of \<open>parseFiltersFromUrl\<close>, for the parameters \<open>kmin\<close> and \<open>kmax\<close>.\<close>

definition parse_range ::
  "(string \<Rightarrow> ('n::linorder) option) \<Rightarrow> query \<Rightarrow> string \<Rightarrow> string \<Rightarrow> 'n json option" where
  "parse_range toNum q kmin kmax =
     (case (map_of q kmin, map_of q kmax) of
        (Some a, Some b) \<Rightarrow>
          (if qval_truthy a \<and> qval_truthy b
           then (case (js_Number toNum a, js_Number toNum b) of
                   (Some lo, Some hi) \<Rightarrow>
                     (if lo \<le> hi then Some (JArr [JNum lo, JNum hi]) else None)
                 | _ \<Rightarrow> None)
           else None)
      | _ \<Rightarrow> None)"

text \<open>The rooms block: map \<open>Number\<close>, keep what is not \<open>NaN\<close> and positive, sort.\<close>

definition parse_rooms ::
  "(string \<Rightarrow> ('n::{linorder,zero}) option) \<Rightarrow> query \<Rightarrow> 'n json option" where
  "parse_rooms toNum q =
     (case map_of q ''rooms'' of
        None \<Rightarrow> None
      | Some v \<Rightarrow>
          (if qval_truthy v
           then (let roomsParam = (case v of QArr xs \<Rightarrow> xs | QStr s \<Rightarrow> [s]);
                     rs = sort (filter (\<lambda>r. r > 0) (List.map_filter toNum roomsParam))
                 in if length rs > 0 then Some (JArr (map JNum rs)) else None)
           else None))"

definition parseFiltersFromUrl ::
  "(string \<Rightarrow> ('n::{linorder,zero}) option) \<Rightarrow> query \<Rightarrow> 'n PartialFilterParams option" where
  "parseFiltersFromUrl toNum q =
     (if length q = 0 then None
      else
        (let fs = \<lparr>p_priceRange = parse_range toNum q ''priceMin'' ''priceMax'',
                   p_areaRange = parse_range toNum q ''areaMin'' ''areaMax'',
                   p_rooms = parse_rooms toNum q,
                   p_floors = parse_range toNum q ''floorMin'' ''floorMax''\<rparr>
         in if p_priceRange fs = None \<and> p_areaRange fs = None
               \<and> p_rooms fs = None \<and> p_floors fs = None
            then None else Some fs))"

text \<open>
  \<open>updateUrlWithFilters(filters, defaultFilters)\<close>: \<open>build_query\<close> is the object
  \<open>query\<close> it fills, property by property; the function hands it to
  \<open>router.replace\<close>, or \<open>undefined\<close> (\<open>None\<close>) when it has no property.
\<close>

definition build_query :: "('n \<Rightarrow> string) \<Rightarrow> 'n FilterParams \<Rightarrow> 'n FilterParams \<Rightarrow> query" where
  "build_query toStr fs defaultFilters =
     (if fst (priceRange fs) \<noteq> fst (priceRange defaultFilters)
         \<or> snd (priceRange fs) \<noteq> snd (priceRange defaultFilters)
      then [(''priceMin'', QStr (toStr (fst (priceRange fs)))),
            (''priceMax'', QStr (toStr (snd (priceRange fs))))] else []) @
     (if fst (areaRange fs) \<noteq> fst (areaRange defaultFilters)
         \<or> snd (areaRange fs) \<noteq> snd (areaRange defaultFilters)
      then [(''areaMin'', QStr (toStr (fst (areaRange fs)))),
            (''areaMax'', QStr (toStr (snd (areaRange fs))))] else []) @
     (if length (rooms fs) > 0
      then [(''rooms'', QArr (map toStr (rooms fs)))] else []) @
     (if fst (floors fs) \<noteq> fst (floors defaultFilters)
         \<or> snd (floors fs) \<noteq> snd (floors defaultFilters)
      then [(''floorMin'', QStr (toStr (fst (floors fs)))),
            (''floorMax'', QStr (toStr (snd (floors fs))))] else [])"

definition updateUrlWithFilters ::
  "('n \<Rightarrow> string) \<Rightarrow> 'n FilterParams \<Rightarrow> 'n FilterParams \<Rightarrow> query option" where
  "updateUrlWithFilters toStr fs defaultFilters =
     (let q = build_query toStr fs defaultFilters
      in if length q > 0 then Some q else None)"

text \<open>\<open>route.query\<close> after \<open>router.replace({ path, query })\<close> has succeeded.\<close>

definition route_query :: "query option \<Rightarrow> query" where
  "route_query q = (case q of Some kvs \<Rightarrow> kvs | None \<Rightarrow> [])"

text \<open>
  What the platform guarantees for a number \<open>x\<close> that is not \<open>NaN\<close>: its text is not
  empty and \<open>Number\<close> reads it back as \<open>x\<close>. The numbers of a filter set are its six
  bounds and its rooms.
\<close>

definition reads_back :: "('n \<Rightarrow> string) \<Rightarrow> (string \<Rightarrow> 'n option) \<Rightarrow> 'n \<Rightarrow> bool" where
  "reads_back toStr toNum x = (toStr x \<noteq> [] \<and> toNum (toStr x) = Some x)"

definition numbers_of :: "'n FilterParams \<Rightarrow> 'n list" where
  "numbers_of fs =
     [fst (priceRange fs), snd (priceRange fs), fst (areaRange fs), snd (areaRange fs),
      fst (floors fs), snd (floors fs)] @ rooms fs"

text \<open>
  What a round trip through the URL gives back for one dimension, whatever the
  filters are: a range comes back when it differs from the default and is not
  inverted; of the rooms, the positive values come back, sorted ascending, when
  there is one.
\<close>

definition recovered_range :: "('n::linorder) \<times> 'n \<Rightarrow> 'n \<times> 'n \<Rightarrow> 'n json option" where
  "recovered_range r d =
     (if (fst r \<noteq> fst d \<or> snd r \<noteq> snd d) \<and> fst r \<le> snd r
      then Some (JArr [JNum (fst r), JNum (snd r)]) else None)"

definition recovered_rooms :: "('n::{linorder,zero}) list \<Rightarrow> 'n json option" where
  "recovered_rooms rs =
     (let ps = sort (filter (\<lambda>r. r > 0) rs)
      in if ps = [] then None else Some (JArr (map JNum ps)))"

definition recovered ::
  "('n::{linorder,zero}) FilterParams \<Rightarrow> 'n FilterParams \<Rightarrow> 'n PartialFilterParams" where
  "recovered fs d =
     \<lparr>p_priceRange = recovered_range (priceRange fs) (priceRange d),
      p_areaRange = recovered_range (areaRange fs) (areaRange d),
      p_rooms = recovered_rooms (rooms fs),
      p_floors = recovered_range (floors fs) (floors d)\<rparr>"

text \<open>
  The round trip in the words of the specification. Filters are within the metadata
  bounds when each range lies inside the metadata range and is not inverted, and
  every selected room is one of the available rooms. The dimensions that differ
  from the defaults form a partial filter object: a range with its two bounds when
  it is not the default range, the rooms whenever there is one. The rooms of a
  filter set are a selection (unique values, in any order); the partial object
  lists them in ascending order, as the parser does.
\<close>

definition within_metadata :: "('n::linorder) FilterMetadata \<Rightarrow> 'n FilterParams \<Rightarrow> bool" where
  "within_metadata md fs =
     (accepted_range (meta_priceRange md) (priceRange fs)
      \<and> accepted_range (meta_areaRange md) (areaRange fs)
      \<and> accepted_range (floorsRange md) (floors fs)
      \<and> list_all (\<lambda>r. r \<in> set (roomsAvailable md)) (rooms fs))"

definition spec_nondefault ::
  "('n::linorder) FilterParams \<Rightarrow> 'n FilterParams \<Rightarrow> 'n PartialFilterParams" where
  "spec_nondefault fs d =
     \<lparr>p_priceRange = (if priceRange fs \<noteq> priceRange d
                       then Some (JArr [JNum (fst (priceRange fs)), JNum (snd (priceRange fs))])
                       else None),
      p_areaRange = (if areaRange fs \<noteq> areaRange d
                      then Some (JArr [JNum (fst (areaRange fs)), JNum (snd (areaRange fs))])
                      else None),
      p_rooms = (if rooms fs \<noteq> [] then Some (JArr (map JNum (sort (rooms fs)))) else None),
      p_floors = (if floors fs \<noteq> floors d
                   then Some (JArr [JNum (fst (floors fs)), JNum (snd (floors fs))])
                   else None)\<rparr>"

definition no_dimension :: "'n PartialFilterParams \<Rightarrow> bool" where
  "no_dimension pf =
     (p_priceRange pf = None \<and> p_areaRange pf = None \<and> p_rooms pf = None \<and> p_floors pf = None)"

subsection \<open>An instance of the platform functions\<close>

text \<open>
  The two platform functions on decimal texts, for the examples. The numbers are
  reals. \<open>decimal_toString\<close> prints the sign, the integral part and, when there is
  one, the fraction (at most 17 digits of it); this is the text that JavaScript
  prints for a number of up to 15 significant digits whose absolute value is 0 or
  lies between \<open>10\<^sup>-\<^sup>6\<close> and \<open>10\<^sup>2\<^sup>1\<close> (outside this range JavaScript prints an
  exponent).
\<close>

fun fraction_digits :: "nat \<Rightarrow> real \<Rightarrow> string" where
  "fraction_digits 0 x = []"
| "fraction_digits (Suc k) x =
     (if x = 0 then []
      else digit_char (nat \<lfloor>10 * x\<rfloor>) # fraction_digits k (10 * x - of_int \<lfloor>10 * x\<rfloor>))"

definition decimal_toString :: "real \<Rightarrow> string" where
  "decimal_toString x =
     (let a = \<bar>x\<bar>; whole = \<lfloor>a\<rfloor>; part = a - of_int whole
      in (if x < 0 then ''-'' else []) @ nat_toString (nat whole)
         @ (if part = 0 then [] else CHR ''.'' # fraction_digits 17 part))"

text \<open>
  \<open>decimal_Number\<close> reads a decimal literal as \<open>Number\<close> does: white space around it
  is dropped (tab, line feed, vertical tab, form feed, carriage return, space and
  no-break space are the white space characters among the 256 characters of the
  model); what is left is empty (the number 0) or an optional sign, digits with an
  optional fraction (one of the two may be missing, not both) and an optional
  exponent. JavaScript also reads \<open>Infinity\<close> and hexadecimal, octal and binary
  literals; they read as \<open>NaN\<close> here. The theorems about the URL layer hold for
  every pair of functions and do not use this instance; the examples do.
\<close>

definition is_space :: "char \<Rightarrow> bool" where
  "is_space c = ((of_char c :: nat) \<in> {9, 10, 11, 12, 13, 32, 160})"

definition trim :: "string \<Rightarrow> string" where
  "trim s = rev (dropWhile is_space (rev (dropWhile is_space s)))"

definition read_sign :: "string \<Rightarrow> bool \<times> string" where
  "read_sign s =
     (case s of
        [] \<Rightarrow> (False, [])
      | c # cs \<Rightarrow>
          (if c = CHR ''-'' then (True, cs) else if c = CHR ''+'' then (False, cs) else (False, s)))"

definition read_exponent :: "string \<Rightarrow> int option" where
  "read_exponent s =
     (case s of
        [] \<Rightarrow> Some 0
      | c # cs \<Rightarrow>
          (if c = CHR ''e'' \<or> c = CHR ''E''
           then (let ds = snd (read_sign cs)
                 in if ds \<noteq> [] \<and> list_all is_digit ds
                    then Some (if fst (read_sign cs) then - int (digits_value ds)
                               else int (digits_value ds))
                    else None)
           else None))"

definition scale :: "real \<Rightarrow> int \<Rightarrow> real" where
  "scale x e = (if e < 0 then x / 10 ^ nat (- e) else x * 10 ^ nat e)"

definition unsigned_decimal :: "string \<Rightarrow> real option" where
  "unsigned_decimal s =
     (let whole = takeWhile is_digit s;
          r1 = dropWhile is_digit s;
          dotted = (r1 \<noteq> [] \<and> hd r1 = CHR ''.'');
          part = (if dotted then takeWhile is_digit (tl r1) else []);
          r2 = (if dotted then dropWhile is_digit (tl r1) else r1)
      in if whole = [] \<and> part = [] then None
         else (case read_exponent r2 of
                 None \<Rightarrow> None
               | Some e \<Rightarrow>
                   Some (scale (real (digits_value whole)
                                + real (digits_value part) / 10 ^ length part) e)))"

definition decimal_Number :: "string \<Rightarrow> real option" where
  "decimal_Number s =
     (let t = trim s
      in if t = [] then Some 0
         else map_option (\<lambda>x. if fst (read_sign t) then - x else x)
                (unsigned_decimal (snd (read_sign t))))"

section \<open>Example inputs\<close>

text \<open>A store that holds one page of two apartments out of five.\<close>

definition loaded_page :: "nat ApartmentState" where
  "loaded_page =
     initial_apartment_state\<lparr>apartments := [1, 2],
                              pagination := \<lparr>page = 1, limit = 2, total = 5\<rparr>\<rparr>"

text \<open>The metadata of the application's defaults, and stores with and without it.\<close>

definition default_metadata :: "real FilterMetadata" where
  "default_metadata =
     \<lparr>meta_priceRange = (0, 100000000), meta_areaRange = (1, 1000),
      roomsAvailable = [1, 2, 3, 4], floorsRange = (1, 50)\<rparr>"

definition uninitialized_world :: "real FilterWorld" where
  "uninitialized_world =
     \<lparr>store = \<lparr>filters = \<lparr>priceRange = (3200000, 25000000), areaRange = (25.5, 150),
                           rooms = [], floors = (1, 20)\<rparr>,
               metadata = None, loading = False, error = None, isActive = False\<rparr>,
      client = True, clock = 0, storage_throws = False, stored = None\<rparr>"

definition initialized_world :: "real FilterWorld" where
  "initialized_world =
     \<lparr>store = \<lparr>filters = \<lparr>priceRange = (0, 100000000), areaRange = (1, 1000),
                           rooms = [], floors = (1, 50)\<rparr>,
               metadata = Some default_metadata, loading = False, error = None,
               isActive = False\<rparr>,
      client = True, clock = 0, storage_throws = False, stored = None\<rparr>"

definition default_rules :: "real FilterValidationRules" where
  "default_rules =
     \<lparr>rule_priceRange = \<lparr>rmin = 0, rmax = 100000000\<rparr>,
      rule_areaRange = \<lparr>rmin = 1, rmax = 1000\<rparr>,
      rule_rooms_available = [1, 2, 3, 4],
      rule_floors = \<lparr>rmin = 1, rmax = 50\<rparr>\<rparr>"

text \<open>Filters whose price range is inverted and whose other dimensions are the defaults.\<close>

definition inverted_price :: "real FilterParams" where
  "inverted_price =
     \<lparr>priceRange = (60, 40), areaRange = (1, 1000), rooms = [], floors = (1, 50)\<rparr>"

text \<open>The initialised store with another price range in its filters.\<close>

definition price_store :: "real \<times> real \<Rightarrow> real FilterState" where
  "price_store rng =
     (store initialized_world)\<lparr>filters := (filters (store initialized_world))\<lparr>priceRange := rng\<rparr>\<rparr>"

text \<open>Saved filters whose price range has its upper bound out of range.\<close>

definition saved_price_too_high :: "real PartialFilterParams" where
  "saved_price_too_high =
     \<lparr>p_priceRange = Some (JArr [JNum 50, JNum 200000000]), p_areaRange = None,
      p_rooms = Some (JArr [JNum 1, JNum 7, JStr ''2'']),
      p_floors = Some (JArr [JNum 2, JNum 5])\<rparr>"

text \<open>
  The cache after an earlier successful \<open>setCache\<close> for \<open>/api/apartments\<close> at time 0
  with a TTL of 100 ms, the same with the response \<open>0\<close>, and an empty cache; a
  network that fails and one that answers.
\<close>

definition no_options :: FetchOptions where
  "no_options = \<lparr>opts_cache = None, opts_rest = []\<rparr>"

definition apartments_key :: string where
  "apartments_key = cacheKey_of ''/api/apartments'' no_options"

definition empty_cache :: "int CacheWorld" where
  "empty_cache =
     \<lparr>memoryCache = Map.empty, localStorage = Map.empty, has_window = True,
      ls_throws = False, requests = []\<rparr>"

definition cache_with :: "int json \<Rightarrow> int CacheWorld" where
  "cache_with d =
     setCache 0 apartments_key d \<lparr>opt_ttl = Some 100, opt_useLocalStorage = None, opt_key = None\<rparr>
       empty_cache"

definition failing_fetch :: fetcher where
  "failing_fetch url options = Inl (ErrorObj ''Network Error'')"

definition answering_fetch :: fetcher where
  "answering_fetch url options = Inr (JStr ''fresh'')"

text \<open>
  Filters for the URL layer: the defaults derived from the metadata, and a selection
  with a narrowed price range, a fractional area bound and two rooms in the order
  in which they were chosen.
\<close>

definition url_defaults :: "real FilterParams" where
  "url_defaults =
     \<lparr>priceRange = (0, 100000000), areaRange = (1, 1000), rooms = [], floors = (1, 50)\<rparr>"

definition narrowed :: "real FilterParams" where
  "narrowed =
     \<lparr>priceRange = (5000000, 10000000), areaRange = (25.5, 150), rooms = [3, 1],
      floors = (1, 50)\<rparr>"

section \<open>The apartment store: failed loads\<close>

lemma loadApartments_fulfils: "fst (loadApartments fetch fs reset s) = Fulfilled"
  by (simp add: loadApartments_def Let_def)

lemma loadApartments_failed_state:
  assumes "fetch (request_of fs reset s) = Inl e"
  shows "snd (loadApartments fetch fs reset s) =
           (if reset
            then s\<lparr>apt_loading := False,
                   apt_error := Some (case e of ErrorObj m \<Rightarrow> m
                                      | OtherThrown \<Rightarrow> ''Failed to load apartments''),
                   pagination := (pagination s)\<lparr>page := 1\<rparr>, apartments := []\<rparr>
            else s\<lparr>apt_loading := False,
                   apt_error := Some (case e of ErrorObj m \<Rightarrow> m
                                      | OtherThrown \<Rightarrow> ''Failed to load apartments'')\<rparr>)"
  using assms
  by (cases reset)
     (simp_all add: loadApartments_def loadApartments_try_def loadApartments_catch_def
        request_of_def build_params_def Let_def)

lemma loadApartments_clears_loading:
  "apt_loading (snd (loadApartments fetch fs reset s)) = False"
  by (simp add: loadApartments_def Let_def)

text \<open>
  Claim C6. Whenever the fetch of \<open>loadApartments\<close> fails, the message of the thrown
  error (or the fixed text, when the thrown value is not an \<open>Error\<close>) is recorded in
  the store's error field; a reset load leaves the apartments list empty, a
  load-more continuation leaves it exactly as it was before the call. Whatever the
  outcome of the fetch, the loading flag is cleared.
\<close>

theorem loadApartments_failure_handling:
  "(fetch (request_of fs reset s) = Inl e \<longrightarrow>
      apt_error (snd (loadApartments fetch fs reset s)) =
        Some (case e of ErrorObj m \<Rightarrow> m | OtherThrown \<Rightarrow> ''Failed to load apartments'')
      \<and> apartments (snd (loadApartments fetch fs reset s)) =
          (if reset then [] else apartments s))
   \<and> apt_loading (snd (loadApartments fetch fs reset s)) = False"
proof (intro conjI impI)
  assume failed: "fetch (request_of fs reset s) = Inl e"
  show "apt_error (snd (loadApartments fetch fs reset s)) =
        Some (case e of ErrorObj m \<Rightarrow> m | OtherThrown \<Rightarrow> ''Failed to load apartments'')"
    using loadApartments_failed_state [of fetch fs reset s e] failed by simp
  show "apartments (snd (loadApartments fetch fs reset s)) =
          (if reset then [] else apartments s)"
    using loadApartments_failed_state [of fetch fs reset s e] failed by simp
next
  show "apt_loading (snd (loadApartments fetch fs reset s)) = False"
    by (rule loadApartments_clears_loading)
qed

theorem loadApartments_failure_handling_witness:
  "(failing_api :: nat api) (request_of None False loaded_page) = Inl (ErrorObj ''Network Error'')
   \<and> apt_error (snd (loadApartments failing_api None False loaded_page)) = Some ''Network Error''
   \<and> apartments (snd (loadApartments failing_api None False loaded_page)) = [1, 2]
   \<and> apartments (snd (loadApartments failing_api None True loaded_page)) = []
   \<and> apt_loading (snd (loadApartments failing_api None False loaded_page)) = False"
  using loadApartments_failure_handling [of failing_api None False loaded_page "ErrorObj ''Network Error''"]
    loadApartments_failure_handling [of failing_api None True loaded_page "ErrorObj ''Network Error''"]
  by (simp add: failing_api_def loaded_page_def initial_apartment_state_def)

text \<open>
  \<open>loadApartments\<close> catches every failure of its fetch and does not rethrow, so its
  promise is always fulfilled and the \<open>catch\<close> block of \<open>loadMore\<close> never runs.
\<close>

lemma loadMore_never_rejects: "fst (loadMore fetch s) = Fulfilled"
  by (simp add: loadMore_def Let_def loadApartments_def split: prod.splits completion.splits)

lemma loadMore_page_after_failed_fetch:
  assumes "canLoadMore s"
    and "fetch (request_of None False
                 (s\<lparr>pagination := (pagination s)\<lparr>page := page (pagination s) + 1\<rparr>\<rparr>)) = Inl e"
  shows "page (pagination (snd (loadMore fetch s))) = page (pagination s) + 1"
proof -
  let ?s1 = "s\<lparr>pagination := (pagination s)\<lparr>page := page (pagination s) + 1\<rparr>\<rparr>"
  obtain c s2 where run: "loadApartments fetch None False ?s1 = (c, s2)"
    by (cases "loadApartments fetch None False ?s1")
  then have "c = Fulfilled"
    using loadApartments_fulfils [of fetch None False ?s1] by simp
  with run assms(1) have "snd (loadMore fetch s) = snd (loadApartments fetch None False ?s1)"
    by (simp add: loadMore_def Let_def)
  then show ?thesis
    using loadApartments_failed_state [of fetch None False ?s1 e] assms(2) by simp
qed

text \<open>
  Claim C1 says that after a failed \<open>loadMore\<close> the page equals its value before the
  call. The code does not do that: started on page 1 with \<open>hasMore = true\<close> and
  \<open>loading = false\<close>, a \<open>loadMore\<close> whose fetch fails settles fulfilled, with the
  error recorded and the page left at 2.
\<close>

theorem loadMore_failed_fetch_keeps_increment:
  "loadMore failing_api (initial_apartment_state :: nat ApartmentState) =
     (Fulfilled,
      initial_apartment_state\<lparr>apt_error := Some ''Network Error'',
                               pagination := \<lparr>page = 2, limit = 20, total = 0\<rparr>\<rparr>)"
  by (simp add: loadMore_def canLoadMore_def loadApartments_def loadApartments_try_def
      loadApartments_catch_def failing_api_def initial_apartment_state_def Let_def)

section \<open>The filter store\<close>

text \<open>
  Claim C9. While the store has no metadata, \<open>updatePriceRange\<close>, \<open>updateAreaRange\<close>,
  \<open>updateRooms\<close> and \<open>updateFloorsRange\<close> change nothing, whatever their argument:
  the filters, \<open>isActive\<close> and \<open>error\<close> stay as they are and nothing is written to
  storage. The validator returns \<open>false\<close> before it assigns a message, so no error
  is shown either.
\<close>

theorem updates_without_metadata_are_silent:
  "metadata (store w) = None \<Longrightarrow>
     updatePriceRange r w = w \<and> updateAreaRange r w = w
     \<and> updateRooms rs w = w \<and> updateFloorsRange r w = w"
  by (simp add: updatePriceRange_def validatePriceRange_def updateAreaRange_def
      validateAreaRange_def updateRooms_def validateRooms_def updateFloorsRange_def
      validateFloorsRange_def)

theorem updates_without_metadata_are_silent_witness:
  "metadata (store uninitialized_world) = None
   \<and> updatePriceRange (5000000, 10000000) uninitialized_world = uninitialized_world
   \<and> updateAreaRange (5000000, 10000000) uninitialized_world = uninitialized_world
   \<and> updateRooms [2] uninitialized_world = uninitialized_world
   \<and> updateFloorsRange (5000000, 10000000) uninitialized_world = uninitialized_world"
  using updates_without_metadata_are_silent [of uninitialized_world "(5000000, 10000000)" "[2]"]
  by (simp add: uninitialized_world_def)

subsection \<open>toggleRoom\<close>

lemma toggleRoom_rooms:
  "rooms (filters (store (toggleRoom n w))) =
     sort (if n \<in> set (rooms (filters (store w)))
           then remove1 n (rooms (filters (store w)))
           else rooms (filters (store w)) @ [n])"
  by (simp add: toggleRoom_def saveFiltersToStorage_def saveFilters_def Let_def)

lemma toggleRoom_sorted: "sorted (rooms (filters (store (toggleRoom n w))))"
  by (simp add: toggleRoom_rooms)

lemma toggleRoom_adds:
  "n \<notin> set (rooms (filters (store w))) \<Longrightarrow>
     set (rooms (filters (store (toggleRoom n w)))) = insert n (set (rooms (filters (store w))))"
  by (simp add: toggleRoom_rooms)

lemma toggleRoom_removes:
  "n \<in> set (rooms (filters (store w))) \<Longrightarrow> distinct (rooms (filters (store w))) \<Longrightarrow>
     set (rooms (filters (store (toggleRoom n w)))) = set (rooms (filters (store w))) - {n}"
  by (simp add: toggleRoom_rooms)

lemma toggleRoom_error: "error (store (toggleRoom n w)) = error (store w)"
  by (simp add: toggleRoom_def saveFiltersToStorage_def saveFilters_def Let_def)

text \<open>
  Claim C8 says that \<open>toggleRoom\<close> accepts a mutation only if every resulting room is
  in \<open>roomsAvailable\<close>, as \<open>updateRooms\<close> does. It does add an absent value, remove a
  present one and leave the list sorted (the lemmas above), but it calls no
  validator: with the rooms 1 to 4 available, \<open>toggleRoom(5)\<close> stores and saves
  \<open>[5]\<close> without an error, where \<open>updateRooms([5])\<close> rejects the same list with a
  message and saves nothing; \<open>validateAllFilters\<close> then reports the state that
  \<open>toggleRoom\<close> produced as invalid.
\<close>

theorem toggleRoom_accepts_unavailable_room:
  "rooms (filters (store (toggleRoom 5 initialized_world))) = [5]
   \<and> error (store (toggleRoom 5 initialized_world)) = None
   \<and> stored (toggleRoom 5 initialized_world) =
       Some (\<lparr>priceRange = (0, 100000000), areaRange = (1, 1000), rooms = [5], floors = (1, 50)\<rparr>, 0)
   \<and> rooms (filters (store (updateRooms [5] initialized_world))) = []
   \<and> error (store (updateRooms [5] initialized_world)) = Some (Template ''rooms not available'' [5])
   \<and> stored (updateRooms [5] initialized_world) = None
   \<and> codes (fst (validateAllFilters (store (toggleRoom 5 initialized_world)))) = [''INVALID_ROOMS'']"
  by (simp add: toggleRoom_def updateRooms_def validateRooms_def saveFiltersToStorage_def
      saveFilters_def hasActiveFilters_def initialized_world_def default_metadata_def Let_def
      validateAllFilters_def validatePriceRange_def validateAreaRange_def validateFloorsRange_def
      codes_def error_or_def)

section \<open>Validation against rules\<close>

lemma mem_if_single: "x \<in> set (if c then [y] else []) \<longleftrightarrow> c \<and> x = y"
  by auto

lemma map_code_if_single:
  "map code (if c then [\<lparr>field = f, message = msg, code = k\<rparr>] else []) = (if c then [k] else [])"
  by simp

lemma codes_validateFilterParams:
  "codes (validateFilterParams f r) =
     (if fst (priceRange f) < rmin (rule_priceRange r) then [''PRICE_MIN_INVALID''] else []) @
     (if snd (priceRange f) > rmax (rule_priceRange r) then [''PRICE_MAX_INVALID''] else []) @
     (if fst (priceRange f) > snd (priceRange f) then [''PRICE_RANGE_INVALID''] else []) @
     (if fst (areaRange f) < rmin (rule_areaRange r) then [''AREA_MIN_INVALID''] else []) @
     (if snd (areaRange f) > rmax (rule_areaRange r) then [''AREA_MAX_INVALID''] else []) @
     (if fst (areaRange f) > snd (areaRange f) then [''AREA_RANGE_INVALID''] else []) @
     (if \<not> set (rooms f) \<subseteq> set (rule_rooms_available r) then [''ROOMS_INVALID''] else []) @
     (if fst (floors f) < rmin (rule_floors r) then [''FLOOR_MIN_INVALID''] else []) @
     (if snd (floors f) > rmax (rule_floors r) then [''FLOOR_MAX_INVALID''] else []) @
     (if fst (floors f) > snd (floors f) then [''FLOOR_RANGE_INVALID''] else [])"
proof -
  have rooms_test:
    "(length (filter (\<lambda>room. room \<notin> set (rule_rooms_available r)) (rooms f)) > 0)
       = (\<not> set (rooms f) \<subseteq> set (rule_rooms_available r))"
    by (auto simp: filter_empty_conv)
  show ?thesis
    unfolding codes_def validateFilterParams_def Let_def
    by (simp only: ValidationResult.simps map_append map_code_if_single rooms_test)
qed

lemma isValid_validateFilterParams:
  "isValid (validateFilterParams f r) = (codes (validateFilterParams f r) = [])"
  by (simp add: validateFilterParams_def codes_def Let_def split del: if_split)

text \<open>
  The validation utilities of types/constants.ts, which the store does not call:
  \<open>validateFilterParams(filters, rules)\<close> checks each of price, area and floors for
  three conditions, each with a code of its own, and every code is reported exactly
  when its own condition holds, whatever the other dimensions are. The ten codes
  differ from each other, no other code is reported, and the result is valid
  exactly when no code is.
\<close>

lemma validateFilterParams_codes:
  "(''PRICE_MIN_INVALID'' \<in> set (codes (validateFilterParams f r))
      \<longleftrightarrow> fst (priceRange f) < rmin (rule_priceRange r))
   \<and> (''PRICE_MAX_INVALID'' \<in> set (codes (validateFilterParams f r))
      \<longleftrightarrow> snd (priceRange f) > rmax (rule_priceRange r))
   \<and> (''PRICE_RANGE_INVALID'' \<in> set (codes (validateFilterParams f r))
      \<longleftrightarrow> fst (priceRange f) > snd (priceRange f))
   \<and> (''AREA_MIN_INVALID'' \<in> set (codes (validateFilterParams f r))
      \<longleftrightarrow> fst (areaRange f) < rmin (rule_areaRange r))
   \<and> (''AREA_MAX_INVALID'' \<in> set (codes (validateFilterParams f r))
      \<longleftrightarrow> snd (areaRange f) > rmax (rule_areaRange r))
   \<and> (''AREA_RANGE_INVALID'' \<in> set (codes (validateFilterParams f r))
      \<longleftrightarrow> fst (areaRange f) > snd (areaRange f))
   \<and> (''FLOOR_MIN_INVALID'' \<in> set (codes (validateFilterParams f r))
      \<longleftrightarrow> fst (floors f) < rmin (rule_floors r))
   \<and> (''FLOOR_MAX_INVALID'' \<in> set (codes (validateFilterParams f r))
      \<longleftrightarrow> snd (floors f) > rmax (rule_floors r))
   \<and> (''FLOOR_RANGE_INVALID'' \<in> set (codes (validateFilterParams f r))
      \<longleftrightarrow> fst (floors f) > snd (floors f))
   \<and> (''ROOMS_INVALID'' \<in> set (codes (validateFilterParams f r))
      \<longleftrightarrow> \<not> set (rooms f) \<subseteq> set (rule_rooms_available r))
   \<and> set (codes (validateFilterParams f r)) \<subseteq>
        {''PRICE_MIN_INVALID'', ''PRICE_MAX_INVALID'', ''PRICE_RANGE_INVALID'',
         ''AREA_MIN_INVALID'', ''AREA_MAX_INVALID'', ''AREA_RANGE_INVALID'',
         ''FLOOR_MIN_INVALID'', ''FLOOR_MAX_INVALID'', ''FLOOR_RANGE_INVALID'',
         ''ROOMS_INVALID''}
   \<and> distinct [''PRICE_MIN_INVALID'', ''PRICE_MAX_INVALID'', ''PRICE_RANGE_INVALID'',
         ''AREA_MIN_INVALID'', ''AREA_MAX_INVALID'', ''AREA_RANGE_INVALID'',
         ''FLOOR_MIN_INVALID'', ''FLOOR_MAX_INVALID'', ''FLOOR_RANGE_INVALID'',
         ''ROOMS_INVALID'']
   \<and> isValid (validateFilterParams f r) = (codes (validateFilterParams f r) = [])"
proof -
  have mem: "\<And>x. x \<in> set (codes (validateFilterParams f r)) \<longleftrightarrow>
      (fst (priceRange f) < rmin (rule_priceRange r) \<and> x = ''PRICE_MIN_INVALID'') \<or>
      (snd (priceRange f) > rmax (rule_priceRange r) \<and> x = ''PRICE_MAX_INVALID'') \<or>
      (fst (priceRange f) > snd (priceRange f) \<and> x = ''PRICE_RANGE_INVALID'') \<or>
      (fst (areaRange f) < rmin (rule_areaRange r) \<and> x = ''AREA_MIN_INVALID'') \<or>
      (snd (areaRange f) > rmax (rule_areaRange r) \<and> x = ''AREA_MAX_INVALID'') \<or>
      (fst (areaRange f) > snd (areaRange f) \<and> x = ''AREA_RANGE_INVALID'') \<or>
      (\<not> set (rooms f) \<subseteq> set (rule_rooms_available r) \<and> x = ''ROOMS_INVALID'') \<or>
      (fst (floors f) < rmin (rule_floors r) \<and> x = ''FLOOR_MIN_INVALID'') \<or>
      (snd (floors f) > rmax (rule_floors r) \<and> x = ''FLOOR_MAX_INVALID'') \<or>
      (fst (floors f) > snd (floors f) \<and> x = ''FLOOR_RANGE_INVALID'')"
    by (simp only: codes_validateFilterParams set_append Un_iff mem_if_single)
  show ?thesis
    apply (intro conjI)
                apply (simp add: mem)
               apply (simp add: mem)
              apply (simp add: mem)
             apply (simp add: mem)
            apply (simp add: mem)
           apply (simp add: mem)
          apply (simp add: mem)
         apply (simp add: mem)
        apply (simp add: mem)
       apply (simp add: mem)
      apply (rule subsetI)
      apply (simp only: mem)
      apply (elim disjE conjE; simp)
     apply simp
    apply (rule isValid_validateFilterParams)
    done
qed

lemma validateFilterParams_codes_inverted_price:
  "fst (priceRange inverted_price) > snd (priceRange inverted_price)
   \<and> ''PRICE_RANGE_INVALID'' \<in> set (codes (validateFilterParams inverted_price default_rules))
   \<and> ''AREA_RANGE_INVALID'' \<notin> set (codes (validateFilterParams inverted_price default_rules))
   \<and> ''FLOOR_RANGE_INVALID'' \<notin> set (codes (validateFilterParams inverted_price default_rules))
   \<and> codes (validateFilterParams inverted_price default_rules) = [''PRICE_RANGE_INVALID'']
   \<and> \<not> isValid (validateFilterParams inverted_price default_rules)"
  using validateFilterParams_codes [of inverted_price default_rules]
  by (simp add: codes_validateFilterParams inverted_price_def default_rules_def)

section \<open>The store's own validation\<close>

lemma validators_keep_store [simp]:
  "metadata (snd (validatePriceRange r s)) = metadata s"
  "filters (snd (validatePriceRange r s)) = filters s"
  "metadata (snd (validateAreaRange r s)) = metadata s"
  "filters (snd (validateAreaRange r s)) = filters s"
  "metadata (snd (validateRooms rs s)) = metadata s"
  "filters (snd (validateRooms rs s)) = filters s"
  "metadata (snd (validateFloorsRange r s)) = metadata s"
  "filters (snd (validateFloorsRange r s)) = filters s"
  by (simp_all add: validatePriceRange_def validateAreaRange_def validateRooms_def
      validateFloorsRange_def Let_def split: option.splits)

lemma validators_verdict:
  assumes "metadata s = Some m"
  shows "fst (validatePriceRange r s) = accepted_range (meta_priceRange m) r"
    and "fst (validateAreaRange r s) = accepted_range (meta_areaRange m) r"
    and "fst (validateRooms rs s) = (set rs \<subseteq> set (roomsAvailable m))"
    and "fst (validateFloorsRange r s) = accepted_range (floorsRange m) r"
  using assms
  by (auto simp: validatePriceRange_def validateAreaRange_def validateRooms_def
      validateFloorsRange_def accepted_range_def Let_def filter_empty_conv)

text \<open>
  The store's \<open>validateAllFilters\<close> is coarser than \<open>validateFilterParams\<close>: one code
  for each dimension, whichever of the three conditions fails.
\<close>

lemma validateAllFilters_codes:
  assumes "metadata s = Some m"
  shows "codes (fst (validateAllFilters s)) =
     (if \<not> accepted_range (meta_priceRange m) (priceRange (filters s))
      then [''INVALID_PRICE_RANGE''] else []) @
     (if \<not> accepted_range (meta_areaRange m) (areaRange (filters s))
      then [''INVALID_AREA_RANGE''] else []) @
     (if \<not> set (rooms (filters s)) \<subseteq> set (roomsAvailable m)
      then [''INVALID_ROOMS''] else []) @
     (if \<not> accepted_range (floorsRange m) (floors (filters s))
      then [''INVALID_FLOORS_RANGE''] else [])"
  using assms
  by (simp add: validateAllFilters_def codes_def Let_def split_beta validators_verdict
      map_code_if_single split del: if_split)

lemma validateAllFilters_without_metadata:
  assumes "metadata s = None"
  shows "codes (fst (validateAllFilters s)) =
     [''INVALID_PRICE_RANGE'', ''INVALID_AREA_RANGE'', ''INVALID_ROOMS'', ''INVALID_FLOORS_RANGE'']"
  using assms
  by (simp add: validateAllFilters_def codes_def Let_def validatePriceRange_def
      validateAreaRange_def validateRooms_def validateFloorsRange_def)

lemma isValid_validateAllFilters:
  "isValid (fst (validateAllFilters s)) = (codes (fst (validateAllFilters s)) = [])"
  by (simp add: validateAllFilters_def codes_def Let_def split_beta split del: if_split)

text \<open>
  Claim C4, amended. \<open>validateAllFilters()\<close> of the store validates the current
  filters against the metadata. When the metadata is loaded, each of price, area and
  floors is checked on its own for the three conditions (lower bound below the
  metadata minimum, upper bound above the metadata maximum, range inverted), but the
  three conditions of a dimension share that dimension's one code: the code is
  reported exactly when at least one of the three holds for that dimension, whatever
  the other dimensions are, and \<open>INVALID_ROOMS\<close> exactly when a selected room is not
  available. When the metadata is not loaded, all four codes are reported whatever
  the filters are. In both cases only these four codes occur, none of them twice,
  and the result is valid exactly when no code is reported. There is no code for
  an inverted range as such.
\<close>

theorem validateAllFilters_one_code_per_dimension:
  "(metadata s = None \<longrightarrow>
      codes (fst (validateAllFilters s)) =
        [''INVALID_PRICE_RANGE'', ''INVALID_AREA_RANGE'', ''INVALID_ROOMS'',
         ''INVALID_FLOORS_RANGE''])
   \<and> (\<forall>m. metadata s = Some m \<longrightarrow>
        (''INVALID_PRICE_RANGE'' \<in> set (codes (fst (validateAllFilters s)))
           \<longleftrightarrow> fst (priceRange (filters s)) < fst (meta_priceRange m)
               \<or> snd (priceRange (filters s)) > snd (meta_priceRange m)
               \<or> fst (priceRange (filters s)) > snd (priceRange (filters s)))
      \<and> (''INVALID_AREA_RANGE'' \<in> set (codes (fst (validateAllFilters s)))
           \<longleftrightarrow> fst (areaRange (filters s)) < fst (meta_areaRange m)
               \<or> snd (areaRange (filters s)) > snd (meta_areaRange m)
               \<or> fst (areaRange (filters s)) > snd (areaRange (filters s)))
      \<and> (''INVALID_FLOORS_RANGE'' \<in> set (codes (fst (validateAllFilters s)))
           \<longleftrightarrow> fst (floors (filters s)) < fst (floorsRange m)
               \<or> snd (floors (filters s)) > snd (floorsRange m)
               \<or> fst (floors (filters s)) > snd (floors (filters s)))
      \<and> (''INVALID_ROOMS'' \<in> set (codes (fst (validateAllFilters s)))
           \<longleftrightarrow> \<not> set (rooms (filters s)) \<subseteq> set (roomsAvailable m)))
   \<and> set (codes (fst (validateAllFilters s))) \<subseteq>
        {''INVALID_PRICE_RANGE'', ''INVALID_AREA_RANGE'', ''INVALID_ROOMS'',
         ''INVALID_FLOORS_RANGE''}
   \<and> distinct (codes (fst (validateAllFilters s)))
   \<and> isValid (fst (validateAllFilters s)) = (codes (fst (validateAllFilters s)) = [])"
proof (intro conjI allI impI)
  assume "metadata s = None"
  then show "codes (fst (validateAllFilters s)) =
        [''INVALID_PRICE_RANGE'', ''INVALID_AREA_RANGE'', ''INVALID_ROOMS'',
         ''INVALID_FLOORS_RANGE'']"
    by (rule validateAllFilters_without_metadata)
next
  fix m assume m: "metadata s = Some m"
  show "''INVALID_PRICE_RANGE'' \<in> set (codes (fst (validateAllFilters s)))
           \<longleftrightarrow> fst (priceRange (filters s)) < fst (meta_priceRange m)
               \<or> snd (priceRange (filters s)) > snd (meta_priceRange m)
               \<or> fst (priceRange (filters s)) > snd (priceRange (filters s))"
    by (simp only: validateAllFilters_codes [OF m] set_append Un_iff mem_if_single)
       (auto simp: accepted_range_def)
next
  fix m assume m: "metadata s = Some m"
  show "''INVALID_AREA_RANGE'' \<in> set (codes (fst (validateAllFilters s)))
           \<longleftrightarrow> fst (areaRange (filters s)) < fst (meta_areaRange m)
               \<or> snd (areaRange (filters s)) > snd (meta_areaRange m)
               \<or> fst (areaRange (filters s)) > snd (areaRange (filters s))"
    by (simp only: validateAllFilters_codes [OF m] set_append Un_iff mem_if_single)
       (auto simp: accepted_range_def)
next
  fix m assume m: "metadata s = Some m"
  show "''INVALID_FLOORS_RANGE'' \<in> set (codes (fst (validateAllFilters s)))
           \<longleftrightarrow> fst (floors (filters s)) < fst (floorsRange m)
               \<or> snd (floors (filters s)) > snd (floorsRange m)
               \<or> fst (floors (filters s)) > snd (floors (filters s))"
    by (simp only: validateAllFilters_codes [OF m] set_append Un_iff mem_if_single)
       (auto simp: accepted_range_def)
next
  fix m assume m: "metadata s = Some m"
  show "''INVALID_ROOMS'' \<in> set (codes (fst (validateAllFilters s)))
           \<longleftrightarrow> \<not> set (rooms (filters s)) \<subseteq> set (roomsAvailable m)"
    by (simp only: validateAllFilters_codes [OF m] set_append Un_iff mem_if_single)
       (auto simp: accepted_range_def)
next
  show "set (codes (fst (validateAllFilters s))) \<subseteq>
        {''INVALID_PRICE_RANGE'', ''INVALID_AREA_RANGE'', ''INVALID_ROOMS'',
         ''INVALID_FLOORS_RANGE''}"
  proof (cases "metadata s")
    case None
    then show ?thesis by (simp add: validateAllFilters_without_metadata)
  next
    case (Some m)
    show ?thesis
      by (rule subsetI, simp only: validateAllFilters_codes [OF Some] set_append Un_iff mem_if_single)
         auto
  qed
next
  show "distinct (codes (fst (validateAllFilters s)))"
  proof (cases "metadata s")
    case None
    then show ?thesis by (simp add: validateAllFilters_without_metadata)
  next
    case (Some m)
    show ?thesis
      by (simp add: validateAllFilters_codes [OF Some])
  qed
next
  show "isValid (fst (validateAllFilters s)) = (codes (fst (validateAllFilters s)) = [])"
    by (rule isValid_validateAllFilters)
qed

theorem validateAllFilters_one_code_per_dimension_witness:
  "metadata (store uninitialized_world) = None
   \<and> codes (fst (validateAllFilters (store uninitialized_world))) =
        [''INVALID_PRICE_RANGE'', ''INVALID_AREA_RANGE'', ''INVALID_ROOMS'',
         ''INVALID_FLOORS_RANGE'']
   \<and> metadata (price_store (60, 40)) = Some default_metadata
   \<and> ''INVALID_PRICE_RANGE'' \<in> set (codes (fst (validateAllFilters (price_store (60, 40)))))
   \<and> ''INVALID_AREA_RANGE'' \<notin> set (codes (fst (validateAllFilters (price_store (60, 40)))))
   \<and> ''INVALID_FLOORS_RANGE'' \<notin> set (codes (fst (validateAllFilters (price_store (60, 40)))))
   \<and> ''INVALID_ROOMS'' \<notin> set (codes (fst (validateAllFilters (price_store (60, 40)))))
   \<and> \<not> isValid (fst (validateAllFilters (price_store (60, 40))))"
  using validateAllFilters_one_code_per_dimension [of "store uninitialized_world"]
    validateAllFilters_one_code_per_dimension [of "price_store (60, 40)"]
  by (auto simp: uninitialized_world_def price_store_def initialized_world_def
      default_metadata_def)

text \<open>
  Claim C4 as stated fails on the store of the defaults: a price range with its
  lower bound below the minimum, one with its upper bound above the maximum and an
  inverted one inside the bounds are all reported under the same code, so the three
  conditions do not have distinct codes and no range-inversion code exists.
\<close>

theorem validateAllFilters_merges_conditions:
  "codes (fst (validateAllFilters (price_store (-10, 40)))) = [''INVALID_PRICE_RANGE'']
   \<and> codes (fst (validateAllFilters (price_store (0, 200000000)))) = [''INVALID_PRICE_RANGE'']
   \<and> codes (fst (validateAllFilters (price_store (60, 40)))) = [''INVALID_PRICE_RANGE'']"
  by (simp add: validateAllFilters_codes [of _ default_metadata] price_store_def
      initialized_world_def default_metadata_def accepted_range_def)

section \<open>Saved filters\<close>

lemma savedRange_cases:
  "savedRange saved meta = meta \<or>
   (\<exists>mn mx. saved = Some (JArr [JNum mn, JNum mx]) \<and> accepted_range meta (mn, mx)
       \<and> savedRange saved meta = (mn, mx))"
  by (induction saved meta rule: savedRange.induct) (auto simp: accepted_range_def)

lemma savedRange_two_numbers:
  "savedRange (Some (JArr [JNum mn, JNum mx])) meta =
     (if accepted_range meta (mn, mx) then (mn, mx) else meta)"
  by (auto simp: accepted_range_def)

lemma savedRange_bounds:
  "fst meta \<le> fst (savedRange saved meta) \<and> snd (savedRange saved meta) \<le> snd meta"
  using savedRange_cases [of saved meta] by (auto simp: accepted_range_def)

lemma savedRooms_available: "set (savedRooms saved available) \<subseteq> set available"
  by (induction saved available rule: savedRooms.induct)
     (auto simp: List.map_filter_def split: json.splits if_splits)

lemma savedRooms_numbers:
  "savedRooms (Some (JArr (map JNum rs))) available = filter (\<lambda>r. r \<in> set available) rs"
  by (induction rs) (simp_all add: List.map_filter_def)

text \<open>
  Claim C3, amended. \<open>validateSavedFilters\<close> never fails and filters out, silently,
  every room value that is not a number of \<open>roomsAvailable\<close>. It does not clamp
  bound by bound: a saved range of price, area or floors is kept, unchanged, only
  if it is an array of two numbers inside the metadata range and not inverted;
  every other saved range (a bound out of range, an inverted range, a value of
  another shape, no value) is replaced as a whole by the metadata range. The
  result therefore always lies inside the metadata bounds. On the path from the
  URL, \<open>applyUrlFilters\<close> adopts the result and leaves no error.
\<close>

theorem validateSavedFilters_keeps_or_resets:
  "(priceRange (validateSavedFilters sf md) = meta_priceRange md
      \<or> p_priceRange sf = Some (JArr [JNum (fst (priceRange (validateSavedFilters sf md))),
                                       JNum (snd (priceRange (validateSavedFilters sf md)))]))
   \<and> (areaRange (validateSavedFilters sf md) = meta_areaRange md
      \<or> p_areaRange sf = Some (JArr [JNum (fst (areaRange (validateSavedFilters sf md))),
                                      JNum (snd (areaRange (validateSavedFilters sf md)))]))
   \<and> (floors (validateSavedFilters sf md) = floorsRange md
      \<or> p_floors sf = Some (JArr [JNum (fst (floors (validateSavedFilters sf md))),
                                   JNum (snd (floors (validateSavedFilters sf md)))]))
   \<and> (\<forall>mn mx. p_priceRange sf = Some (JArr [JNum mn, JNum mx]) \<longrightarrow>
         priceRange (validateSavedFilters sf md) =
           (if accepted_range (meta_priceRange md) (mn, mx) then (mn, mx) else meta_priceRange md))
   \<and> (\<forall>mn mx. p_areaRange sf = Some (JArr [JNum mn, JNum mx]) \<longrightarrow>
         areaRange (validateSavedFilters sf md) =
           (if accepted_range (meta_areaRange md) (mn, mx) then (mn, mx) else meta_areaRange md))
   \<and> (\<forall>mn mx. p_floors sf = Some (JArr [JNum mn, JNum mx]) \<longrightarrow>
         floors (validateSavedFilters sf md) =
           (if accepted_range (floorsRange md) (mn, mx) then (mn, mx) else floorsRange md))
   \<and> fst (meta_priceRange md) \<le> fst (priceRange (validateSavedFilters sf md))
   \<and> snd (priceRange (validateSavedFilters sf md)) \<le> snd (meta_priceRange md)
   \<and> fst (meta_areaRange md) \<le> fst (areaRange (validateSavedFilters sf md))
   \<and> snd (areaRange (validateSavedFilters sf md)) \<le> snd (meta_areaRange md)
   \<and> fst (floorsRange md) \<le> fst (floors (validateSavedFilters sf md))
   \<and> snd (floors (validateSavedFilters sf md)) \<le> snd (floorsRange md)
   \<and> set (rooms (validateSavedFilters sf md)) \<subseteq> set (roomsAvailable md)
   \<and> (\<forall>rs. p_rooms sf = Some (JArr (map JNum rs)) \<longrightarrow>
         rooms (validateSavedFilters sf md) = filter (\<lambda>r. r \<in> set (roomsAvailable md)) rs)
   \<and> (metadata (store w) = Some md \<longrightarrow>
         filters (store (applyUrlFilters sf w)) = validateSavedFilters sf md
         \<and> error (store (applyUrlFilters sf w)) = None)"
proof -
  have kept: "\<And>saved meta. savedRange saved meta = meta
      \<or> saved = Some (JArr [JNum (fst (savedRange saved meta)), JNum (snd (savedRange saved meta))])"
    subgoal for saved meta
      using savedRange_cases [of saved meta] by auto
    done
  show ?thesis
    unfolding validateSavedFilters_def
    apply (simp only: FilterParams.simps)
    apply (intro conjI allI impI)
                      apply (rule kept)
                     apply (rule kept)
                    apply (rule kept)
                   apply (simp only: savedRange_two_numbers)
                  apply (simp only: savedRange_two_numbers)
                 apply (simp only: savedRange_two_numbers)
                apply (simp only: savedRange_bounds)
               apply (simp only: savedRange_bounds)
              apply (simp only: savedRange_bounds)
             apply (simp only: savedRange_bounds)
            apply (simp only: savedRange_bounds)
           apply (simp only: savedRange_bounds)
          apply (rule savedRooms_available)
         apply (simp only: savedRooms_numbers)
        apply (simp add: applyUrlFilters_def validateSavedFilters_def Let_def)
       apply (simp add: applyUrlFilters_def Let_def)
    done
qed

theorem validateSavedFilters_keeps_or_resets_witness:
  "p_priceRange saved_price_too_high = Some (JArr [JNum 50, JNum 200000000])
   \<and> \<not> accepted_range (meta_priceRange default_metadata) (50, 200000000)
   \<and> validateSavedFilters saved_price_too_high default_metadata =
       \<lparr>priceRange = (0, 100000000), areaRange = (1, 1000), rooms = [1], floors = (2, 5)\<rparr>
   \<and> metadata (store initialized_world) = Some default_metadata
   \<and> error (store (applyUrlFilters saved_price_too_high initialized_world)) = None"
  using validateSavedFilters_keeps_or_resets
          [of saved_price_too_high default_metadata initialized_world]
  by (simp add: saved_price_too_high_def default_metadata_def initialized_world_def
      validateSavedFilters_def accepted_range_def List.map_filter_def)

text \<open>
  Claim C3 as stated fails: with the price range 0 to 100000000 in the metadata, the
  saved range from 50 to 200000000 is not clamped to the range from 50 to
  100000000; the lower bound, which was in range, is reset as well.
\<close>

theorem validateSavedFilters_does_not_clamp:
  "priceRange (validateSavedFilters saved_price_too_high default_metadata)
     \<noteq> spec_clamped_range (meta_priceRange default_metadata) (50, 200000000)"
  by (simp add: saved_price_too_high_def default_metadata_def validateSavedFilters_def
      spec_clamped_range_def spec_clamp_def)

section \<open>The cache layer\<close>

lemma getFromStorage_memory:
  "memoryCache w key = Some e \<Longrightarrow> \<exists>e'. memoryCache (snd (getFromStorage now key w)) key = Some e'"
  by (auto simp: getFromStorage_def split: option.splits ls_item.splits)

lemma getFromCache_keeps_entry:
  "memoryCache w key = Some e \<Longrightarrow>
     \<exists>e'. memoryCache (snd (getFromCache now key useLS w)) key = Some e'"
  using getFromStorage_memory [of w key e now]
  by (auto simp: getFromCache_def)

lemma getFromCache_memory_only: "getFromCache now key False w =
    ((case memoryCache w key of
        Some e \<Rightarrow> if isCacheValid now e then data e else JNull
      | None \<Rightarrow> JNull), w)"
  by (simp add: getFromCache_def split: option.splits)

lemma getFromCache_valid_entry:
  "memoryCache w key = Some e \<Longrightarrow> isCacheValid now e \<Longrightarrow>
     getFromCache now key useLS w = (data e, w)"
  by (simp add: getFromCache_def)

lemma getFromCache_requests:
  "requests (snd (getFromCache now key useLS w)) = requests w"
  by (auto simp: getFromCache_def getFromStorage_def split: option.splits ls_item.splits)

lemma setCache_requests: "requests (setCache now key d opts w) = requests w"
  by (simp add: setCache_def Let_def)

lemma cachedFetch_miss_failure:
  assumes miss: "\<not> js_truthy (fst (getFromCache now (cacheKey_of url options)
                     (useLocalStorage_of (cacheOptions_of options)) w))"
    and fails: "fetch url (opts_rest options) = Inl err"
  shows "fst (cachedFetch fetch now later url options w) =
           (case memoryCache (snd (getFromCache now (cacheKey_of url options)
                     (useLocalStorage_of (cacheOptions_of options)) w)) (cacheKey_of url options) of
              Some staleCache \<Rightarrow> Inr (data staleCache)
            | None \<Rightarrow> Inl err)"
  using assms
  by (simp add: cachedFetch_def Let_def split_beta split: option.splits)

lemma cachedFetch_hit:
  assumes "js_truthy (fst (getFromCache now (cacheKey_of url options)
                     (useLocalStorage_of (cacheOptions_of options)) w))"
  shows "fst (cachedFetch fetch now later url options w) =
           Inr (fst (getFromCache now (cacheKey_of url options)
                     (useLocalStorage_of (cacheOptions_of options)) w))"
    and "requests (snd (cachedFetch fetch now later url options w)) = requests w"
  using assms
  by (simp_all add: cachedFetch_def Let_def split_beta getFromCache_requests)

lemma cachedFetch_miss_requests:
  assumes "\<not> js_truthy (fst (getFromCache now (cacheKey_of url options)
                     (useLocalStorage_of (cacheOptions_of options)) w))"
  shows "requests (snd (cachedFetch fetch now later url options w)) = requests w @ [url]"
  using assms
  by (simp add: cachedFetch_def Let_def split_beta getFromCache_requests setCache_requests
      split: option.splits sum.splits)

lemma cachedFetch_miss_success:
  assumes "\<not> js_truthy (fst (getFromCache now (cacheKey_of url options)
                     (useLocalStorage_of (cacheOptions_of options)) w))"
    and "fetch url (opts_rest options) = Inr response"
  shows "fst (cachedFetch fetch now later url options w) = Inr response"
    and "memoryCache (snd (cachedFetch fetch now later url options w)) (cacheKey_of url options) =
           Some \<lparr>data = response, timestamp = later,
                 ttl = (case opt_ttl (cacheOptions_of options) of Some t \<Rightarrow> t | None \<Rightarrow> 300000)\<rparr>"
  using assms
  by (auto simp: cachedFetch_def Let_def split_beta setCache_def split: option.splits)

lemma falsy_values: "\<not> js_truthy (d :: int json) \<longleftrightarrow> d \<in> {JNull, JBool False, JNum 0, JStr []}"
  by (cases d) auto

text \<open>
  Claim C5. Suppose the lookup of \<open>cachedFetch\<close> is not a hit, so that the network
  fetch is made, and the fetch rejects. If the in-memory cache then holds an entry
  for the derived key, \<open>cachedFetch\<close> returns the data of that entry instead of
  throwing, whether or not the entry has expired (validity is not asked for); if
  it holds none, the failure propagates. An entry that was in memory before the
  call is still there (the lookup may only have replaced it by a valid entry
  promoted from \<open>localStorage\<close>), so with an earlier entry the call never throws;
  without \<open>localStorage\<close> the data returned is exactly that of the earlier entry,
  and with no earlier entry the failure propagates.
\<close>

theorem cachedFetch_stale_on_error:
  assumes "\<not> js_truthy (fst (getFromCache now (cacheKey_of url options)
                     (useLocalStorage_of (cacheOptions_of options)) w))"
    and "fetch url (opts_rest options) = Inl err"
  shows "(\<forall>e. memoryCache (snd (getFromCache now (cacheKey_of url options)
                  (useLocalStorage_of (cacheOptions_of options)) w)) (cacheKey_of url options) = Some e
              \<longrightarrow> fst (cachedFetch fetch now later url options w) = Inr (data e))
       \<and> (memoryCache (snd (getFromCache now (cacheKey_of url options)
                  (useLocalStorage_of (cacheOptions_of options)) w)) (cacheKey_of url options) = None
              \<longrightarrow> fst (cachedFetch fetch now later url options w) = Inl err)
       \<and> (\<forall>e. memoryCache w (cacheKey_of url options) = Some e
              \<longrightarrow> (\<exists>d. fst (cachedFetch fetch now later url options w) = Inr d))
       \<and> (\<forall>e. memoryCache w (cacheKey_of url options) = Some e
               \<and> \<not> useLocalStorage_of (cacheOptions_of options)
              \<longrightarrow> fst (cachedFetch fetch now later url options w) = Inr (data e))
       \<and> (memoryCache w (cacheKey_of url options) = None
               \<and> \<not> useLocalStorage_of (cacheOptions_of options)
              \<longrightarrow> fst (cachedFetch fetch now later url options w) = Inl err)"
proof (intro conjI allI impI)
  have result: "fst (cachedFetch fetch now later url options w) =
           (case memoryCache (snd (getFromCache now (cacheKey_of url options)
                     (useLocalStorage_of (cacheOptions_of options)) w)) (cacheKey_of url options) of
              Some staleCache \<Rightarrow> Inr (data staleCache)
            | None \<Rightarrow> Inl err)"
    using assms by (rule cachedFetch_miss_failure)
  let ?key = "cacheKey_of url options"
  let ?w1 = "snd (getFromCache now ?key (useLocalStorage_of (cacheOptions_of options)) w)"
  show "fst (cachedFetch fetch now later url options w) = Inr (data e)"
    if "memoryCache ?w1 ?key = Some e" for e
    using result that by simp
  show "fst (cachedFetch fetch now later url options w) = Inl err"
    if "memoryCache ?w1 ?key = None"
    using result that by simp
  show "\<exists>d. fst (cachedFetch fetch now later url options w) = Inr d"
    if "memoryCache w ?key = Some e" for e
  proof -
    from getFromCache_keeps_entry [OF that]
    obtain e' where "memoryCache ?w1 ?key = Some e'" by blast
    with result show ?thesis by simp
  qed
  show "fst (cachedFetch fetch now later url options w) = Inr (data e)"
    if "memoryCache w ?key = Some e \<and> \<not> useLocalStorage_of (cacheOptions_of options)" for e
    using result that by (simp add: getFromCache_memory_only)
  show "fst (cachedFetch fetch now later url options w) = Inl err"
    if "memoryCache w ?key = None \<and> \<not> useLocalStorage_of (cacheOptions_of options)"
    using result that by (simp add: getFromCache_memory_only)
qed

lemma cache_with_entry:
  "memoryCache (cache_with d) apartments_key = Some \<lparr>data = d, timestamp = 0, ttl = 100\<rparr>"
  "requests (cache_with d) = []"
  by (simp_all add: cache_with_def setCache_def empty_cache_def Let_def)

lemma no_options_simps:
  "opts_rest no_options = []"
  "useLocalStorage_of (cacheOptions_of no_options) = False"
  "cacheKey_of ''/api/apartments'' no_options = apartments_key"
  by (simp_all add: no_options_def useLocalStorage_of_def cacheOptions_of_def apartments_key_def)

theorem cachedFetch_stale_on_error_witness:
  "\<not> js_truthy (fst (getFromCache 150 (cacheKey_of ''/api/apartments'' no_options)
         (useLocalStorage_of (cacheOptions_of no_options)) (cache_with (JStr ''old''))))
   \<and> failing_fetch ''/api/apartments'' (opts_rest no_options) = Inl (ErrorObj ''Network Error'')
   \<and> \<not> isCacheValid 150 \<lparr>data = JStr ''old'' :: int json, timestamp = 0, ttl = 100\<rparr>
   \<and> fst (cachedFetch failing_fetch 150 160 ''/api/apartments'' no_options (cache_with (JStr ''old'')))
       = Inr (JStr ''old'')
   \<and> fst (cachedFetch failing_fetch 150 160 ''/api/apartments'' no_options empty_cache)
       = Inl (ErrorObj ''Network Error'')"
  using cachedFetch_stale_on_error
          [of 150 "''/api/apartments''" no_options "cache_with (JStr ''old'')" failing_fetch
              "ErrorObj ''Network Error''" 160]
        cachedFetch_stale_on_error
          [of 150 "''/api/apartments''" no_options empty_cache failing_fetch
              "ErrorObj ''Network Error''" 160]
        cache_with_entry [of "JStr ''old''"]
  by (simp add: getFromCache_memory_only no_options_simps failing_fetch_def isCacheValid_def
      empty_cache_def)

lemma unexpired_entry_valid:
  "unexpired_entry now key useLS w = Some e \<Longrightarrow> isCacheValid now e"
  by (auto simp: unexpired_entry_def Let_def split: option.splits ls_item.splits if_splits)

lemma unexpired_entry_in_memory:
  "memoryCache w key = Some e \<Longrightarrow> isCacheValid now e \<Longrightarrow> unexpired_entry now key useLS w = Some e"
  by (simp add: unexpired_entry_def Let_def)

lemma getFromCache_unexpired_entry:
  "fst (getFromCache now key useLS w) =
     (case unexpired_entry now key useLS w of Some e \<Rightarrow> data e | None \<Rightarrow> JNull)"
  by (auto simp: getFromCache_def getFromStorage_def unexpired_entry_def Let_def
      split: option.splits ls_item.splits)

text \<open>
  Claim C10. When the lookup finds an entry whose TTL has not expired (in memory, or
  in \<open>localStorage\<close> when that is consulted) but whose data is falsy (\<open>null\<close>,
  \<open>false\<close>, \<open>0\<close> or the empty string, and nothing else), \<open>cachedFetch\<close> treats it
  as a miss: it makes the network request and returns the fresh response when
  there is one. An unexpired entry with truthy data is returned without a
  request. The hit test looks at the data, not at the presence of an entry.
\<close>

theorem cachedFetch_falsy_data_is_a_miss:
  assumes "unexpired_entry now (cacheKey_of url options)
             (useLocalStorage_of (cacheOptions_of options)) w = Some e"
  shows "isCacheValid now e
       \<and> (\<not> js_truthy (data e) \<longrightarrow>
            requests (snd (cachedFetch fetch now later url options w)) = requests w @ [url]
            \<and> (\<forall>response. fetch url (opts_rest options) = Inr response \<longrightarrow>
                  fst (cachedFetch fetch now later url options w) = Inr response))
       \<and> (js_truthy (data e) \<longrightarrow>
            requests (snd (cachedFetch fetch now later url options w)) = requests w
            \<and> fst (cachedFetch fetch now later url options w) = Inr (data e))
       \<and> (\<not> js_truthy (data e) \<longleftrightarrow> data e \<in> {JNull, JBool False, JNum 0, JStr []})"
proof -
  have lookup: "fst (getFromCache now (cacheKey_of url options)
                  (useLocalStorage_of (cacheOptions_of options)) w) = data e"
    using assms by (simp add: getFromCache_unexpired_entry)
  show ?thesis
  proof (intro conjI impI allI)
    show "isCacheValid now e"
      using assms by (rule unexpired_entry_valid)
  next
    assume falsy: "\<not> js_truthy (data e)"
    then have miss: "\<not> js_truthy (fst (getFromCache now (cacheKey_of url options)
                     (useLocalStorage_of (cacheOptions_of options)) w))"
      by (simp add: lookup)
    then show "requests (snd (cachedFetch fetch now later url options w)) = requests w @ [url]"
      by (rule cachedFetch_miss_requests)
    show "fst (cachedFetch fetch now later url options w) = Inr response"
      if "fetch url (opts_rest options) = Inr response" for response
      using miss that by (rule cachedFetch_miss_success)
  next
    assume truthy: "js_truthy (data e)"
    then have hit: "js_truthy (fst (getFromCache now (cacheKey_of url options)
                     (useLocalStorage_of (cacheOptions_of options)) w))"
      by (simp add: lookup)
    then show "requests (snd (cachedFetch fetch now later url options w)) = requests w"
      by (rule cachedFetch_hit)
    from cachedFetch_hit(1) [OF hit]
    show "fst (cachedFetch fetch now later url options w) = Inr (data e)"
      by (simp add: lookup)
  next
    show "(\<not> js_truthy (data e)) = (data e \<in> {JNull, JBool False, JNum 0, JStr []})"
      by (rule falsy_values)
  qed
qed

theorem cachedFetch_falsy_data_is_a_miss_witness:
  "unexpired_entry 50 (cacheKey_of ''/api/apartments'' no_options)
       (useLocalStorage_of (cacheOptions_of no_options)) (cache_with (JNum 0))
     = Some \<lparr>data = JNum 0, timestamp = 0, ttl = 100\<rparr>
   \<and> isCacheValid 50 \<lparr>data = JNum (0::int), timestamp = 0, ttl = 100\<rparr>
   \<and> \<not> js_truthy (JNum (0::int))
   \<and> requests (snd (cachedFetch answering_fetch 50 60 ''/api/apartments'' no_options
                      (cache_with (JNum 0)))) = [''/api/apartments'']
   \<and> fst (cachedFetch answering_fetch 50 60 ''/api/apartments'' no_options (cache_with (JNum 0)))
       = Inr (JStr ''fresh'')"
proof -
  have found: "unexpired_entry 50 (cacheKey_of ''/api/apartments'' no_options)
       (useLocalStorage_of (cacheOptions_of no_options)) (cache_with (JNum 0))
     = Some \<lparr>data = JNum 0, timestamp = 0, ttl = 100\<rparr>"
    by (simp add: unexpired_entry_in_memory cache_with_entry no_options_simps isCacheValid_def)
  from cachedFetch_falsy_data_is_a_miss [OF found, of answering_fetch 60] found
  show ?thesis
    by (auto simp add: cache_with_entry answering_fetch_def no_options_simps)
qed

subsection \<open>Cache keys\<close>

text \<open>Printing concrete numbers.\<close>

lemma nat_toString_digit: "n < 10 \<Longrightarrow> nat_toString n = [digit_char n]"
  by (simp add: nat_toString.simps)

lemma nat_toString_more:
  "\<not> n < 10 \<Longrightarrow> nat_toString n = nat_toString (n div 10) @ [digit_char (n mod 10)]"
  by (subst nat_toString.simps) simp

lemmas print_number = num_toString_def nat_toString_digit nat_toString_more digit_char_def
  char_of_eq_iff

text \<open>\<open>btoa\<close> is injective: the base64 text determines the bytes.\<close>

lemma b64_alphabet_length: "length b64_alphabet = 64"
  by (simp add: b64_alphabet_def)

lemma b64_alphabet_distinct: "distinct b64_alphabet"
  by (simp add: b64_alphabet_def)

lemma b64_alphabet_no_pad: "CHR ''='' \<notin> set b64_alphabet"
  by (simp add: b64_alphabet_def)

lemma b64_char_inj: "m < 64 \<Longrightarrow> n < 64 \<Longrightarrow> (b64_char m = b64_char n) = (m = n)"
  unfolding b64_char_def
  by (rule nth_eq_iff_index_eq [OF b64_alphabet_distinct]) (simp_all add: b64_alphabet_length)

lemma b64_char_not_pad: "n < 64 \<Longrightarrow> b64_char n \<noteq> CHR ''=''"
proof -
  assume "n < 64"
  then have "b64_alphabet ! n \<in> set b64_alphabet"
    by (simp add: b64_alphabet_length)
  with b64_alphabet_no_pad show ?thesis
    unfolding b64_char_def by metis
qed

lemma split_digits:
  fixes x y x' y' k :: nat
  assumes "x * k + y = x' * k + y'" "y < k" "y' < k"
  shows "x = x' \<and> y = y'"
proof -
  have "(x * k + y) div k = x" "(x' * k + y') div k = x'"
    using assms(2,3) by simp_all
  moreover have "(x * k + y) mod k = y" "(x' * k + y') mod k = y'"
    using assms(2,3) by simp_all
  ultimately show ?thesis using assms(1) by metis
qed

lemma div_mod_eq:
  fixes a a' k :: nat
  assumes "a div k = a' div k" "a mod k = a' mod k"
  shows "a = a'"
  using assms by (metis div_mult_mod_eq)


lemma combine_16: fixes x y :: nat shows "x < 4 \<Longrightarrow> y < 16 \<Longrightarrow> x * 16 + y < 64"
  by simp

lemma combine_4: fixes x y :: nat shows "x < 16 \<Longrightarrow> y < 4 \<Longrightarrow> x * 4 + y < 64"
  by simp

lemma sextet_bounds:
  fixes a b c :: nat
  shows "a < 256 \<Longrightarrow> a div 4 < 64"
    and "b < 256 \<Longrightarrow> (a mod 4) * 16 + b div 16 < 64"
    and "c < 256 \<Longrightarrow> (b mod 16) * 4 + c div 64 < 64"
    and "c mod 64 < 64"
    and "(a mod 4) * 16 < 64"
    and "(b mod 16) * 4 < 64"
proof -
  show "a < 256 \<Longrightarrow> a div 4 < 64"
    by (simp add: div_less_iff_less_mult)
  show "b < 256 \<Longrightarrow> (a mod 4) * 16 + b div 16 < 64"
    by (rule combine_16) (simp_all add: div_less_iff_less_mult)
  show "c < 256 \<Longrightarrow> (b mod 16) * 4 + c div 64 < 64"
    by (rule combine_4) (simp_all add: div_less_iff_less_mult)
  show "c mod 64 < 64" by simp
  show "(a mod 4) * 16 < 64"
    using combine_16 [of "a mod 4" 0] by simp
  show "(b mod 16) * 4 < 64"
    using combine_4 [of "b mod 16" 0] by simp
qed

lemma sextet_pair_16:
  fixes x y x' y' :: nat
  assumes "x < 4" "x' < 4" "y < 16" "y' < 16"
    and "b64_char (x * 16 + y) = b64_char (x' * 16 + y')"
  shows "x = x' \<and> y = y'"
proof -
  have "x * 16 + y < 64" "x' * 16 + y' < 64"
    using assms(1-4) by simp_all
  then have "x * 16 + y = x' * 16 + y'"
    using assms(5) by (simp only: b64_char_inj)
  then show ?thesis
    using assms(3,4) by (rule split_digits)
qed

lemma sextet_pair_4:
  fixes x y x' y' :: nat
  assumes "x < 16" "x' < 16" "y < 4" "y' < 4"
    and "b64_char (x * 4 + y) = b64_char (x' * 4 + y')"
  shows "x = x' \<and> y = y'"
proof -
  have "x * 4 + y < 64" "x' * 4 + y' < 64"
    using assms(1-4) by simp_all
  then have "x * 4 + y = x' * 4 + y'"
    using assms(5) by (simp only: b64_char_inj)
  then show ?thesis
    using assms(3,4) by (rule split_digits)
qed

lemma byte_parts:
  fixes a :: nat
  assumes "a < 256"
  shows "a div 4 < 64" "a mod 4 < 4" "a div 16 < 16" "a mod 16 < 16" "a div 64 < 4" "a mod 64 < 64"
  using assms by (simp_all add: div_less_iff_less_mult)

lemma one_byte_inj:
  fixes a a' :: nat
  assumes "a < 256" "a' < 256" "b64_encode [a] = b64_encode [a']"
  shows "a = a'"
proof -
  from assms(3) have c1: "b64_char (a div 4) = b64_char (a' div 4)"
    and c2: "b64_char ((a mod 4) * 16 + 0) = b64_char ((a' mod 4) * 16 + 0)"
    by (simp_all only: b64_encode.simps list.inject add_0_right)
  have "a div 4 = a' div 4"
    using c1 byte_parts(1) [OF assms(1)] byte_parts(1) [OF assms(2)] by (simp only: b64_char_inj)
  moreover have "a mod 4 = a' mod 4 \<and> (0::nat) = 0"
    by (rule sextet_pair_16 [OF byte_parts(2) [OF assms(1)] byte_parts(2) [OF assms(2)] _ _ c2])
       simp_all
  ultimately show ?thesis by (metis div_mod_eq)
qed

lemma two_bytes_inj:
  fixes a a' b b' :: nat
  assumes "a < 256" "a' < 256" "b < 256" "b' < 256" "b64_encode [a, b] = b64_encode [a', b']"
  shows "a = a' \<and> b = b'"
proof -
  from assms(5) have c1: "b64_char (a div 4) = b64_char (a' div 4)"
    and c2: "b64_char ((a mod 4) * 16 + b div 16) = b64_char ((a' mod 4) * 16 + b' div 16)"
    and c3: "b64_char ((b mod 16) * 4 + 0) = b64_char ((b' mod 16) * 4 + 0)"
    by (simp_all only: b64_encode.simps list.inject add_0_right)
  have 1: "a div 4 = a' div 4"
    using c1 byte_parts(1) [OF assms(1)] byte_parts(1) [OF assms(2)] by (simp only: b64_char_inj)
  have 2: "a mod 4 = a' mod 4 \<and> b div 16 = b' div 16"
    by (rule sextet_pair_16 [OF byte_parts(2) [OF assms(1)] byte_parts(2) [OF assms(2)]
          byte_parts(3) [OF assms(3)] byte_parts(3) [OF assms(4)] c2])
  have 3: "b mod 16 = b' mod 16 \<and> (0::nat) = 0"
    by (rule sextet_pair_4 [OF byte_parts(4) [OF assms(3)] byte_parts(4) [OF assms(4)] _ _ c3])
       simp_all
  from 1 2 have "a = a'" by (metis div_mod_eq)
  moreover from 2 3 have "b = b'" by (metis div_mod_eq)
  ultimately show ?thesis by simp
qed

lemma three_bytes_inj:
  fixes a a' b b' c c' :: nat
  assumes "a < 256" "a' < 256" "b < 256" "b' < 256" "c < 256" "c' < 256"
    and "b64_encode (a # b # c # xs) = b64_encode (a' # b' # c' # ys)"
  shows "a = a' \<and> b = b' \<and> c = c' \<and> b64_encode xs = b64_encode ys"
proof -
  from assms(7) have c1: "b64_char (a div 4) = b64_char (a' div 4)"
    and c2: "b64_char ((a mod 4) * 16 + b div 16) = b64_char ((a' mod 4) * 16 + b' div 16)"
    and c3: "b64_char ((b mod 16) * 4 + c div 64) = b64_char ((b' mod 16) * 4 + c' div 64)"
    and c4: "b64_char (c mod 64) = b64_char (c' mod 64)"
    and rest: "b64_encode xs = b64_encode ys"
    by (simp_all only: b64_encode.simps list.inject)
  have 1: "a div 4 = a' div 4"
    using c1 byte_parts(1) [OF assms(1)] byte_parts(1) [OF assms(2)] by (simp only: b64_char_inj)
  have 2: "a mod 4 = a' mod 4 \<and> b div 16 = b' div 16"
    by (rule sextet_pair_16 [OF byte_parts(2) [OF assms(1)] byte_parts(2) [OF assms(2)]
          byte_parts(3) [OF assms(3)] byte_parts(3) [OF assms(4)] c2])
  have 3: "b mod 16 = b' mod 16 \<and> c div 64 = c' div 64"
    by (rule sextet_pair_4 [OF byte_parts(4) [OF assms(3)] byte_parts(4) [OF assms(4)]
          byte_parts(5) [OF assms(5)] byte_parts(5) [OF assms(6)] c3])
  have 4: "c mod 64 = c' mod 64"
    using c4 byte_parts(6) [OF assms(5)] byte_parts(6) [OF assms(6)] by (simp only: b64_char_inj)
  from 1 2 have "a = a'" by (metis div_mod_eq)
  moreover from 2 3 have "b = b'" by (metis div_mod_eq)
  moreover from 3 4 have "c = c'" by (metis div_mod_eq)
  ultimately show ?thesis using rest by simp
qed

lemma pad_differs: "n < 64 \<Longrightarrow> CHR ''='' \<noteq> b64_char n"
  by (metis b64_char_not_pad)

lemma one_byte_not_two:
  fixes a a' b' :: nat
  shows "b64_encode [a] \<noteq> b64_encode [a', b']"
proof
  assume "b64_encode [a] = b64_encode [a', b']"
  then have "CHR ''='' = b64_char ((b' mod 16) * 4)"
    by (simp only: b64_encode.simps list.inject)
  then show False
    using pad_differs [OF sextet_bounds(6) [of b']] by simp
qed

lemma one_byte_not_three:
  fixes a a' b' c' :: nat
  assumes "c' < 256"
  shows "b64_encode [a] \<noteq> b64_encode (a' # b' # c' # ys)"
proof
  assume "b64_encode [a] = b64_encode (a' # b' # c' # ys)"
  then have "CHR ''='' = b64_char ((b' mod 16) * 4 + c' div 64)"
    by (simp only: b64_encode.simps list.inject)
  then show False
    using pad_differs [OF sextet_bounds(3) [OF assms, of b']] by simp
qed

lemma two_bytes_not_three:
  fixes a b a' b' c' :: nat
  shows "b64_encode [a, b] \<noteq> b64_encode (a' # b' # c' # ys)"
proof
  assume "b64_encode [a, b] = b64_encode (a' # b' # c' # ys)"
  then have "CHR ''='' = b64_char (c' mod 64)"
    by (simp only: b64_encode.simps list.inject)
  then show False
    using pad_differs [OF sextet_bounds(4) [of c']] by simp
qed

lemma b64_encode_inj:
  "list_all (\<lambda>x. x < 256) xs \<Longrightarrow> list_all (\<lambda>x. x < 256) ys \<Longrightarrow>
     b64_encode xs = b64_encode ys \<Longrightarrow> xs = ys"
proof (induction xs arbitrary: ys rule: b64_encode.induct)
  case 1
  then show ?case by (cases ys rule: b64_encode.cases) simp_all
next
  case (2 a)
  show ?case
  proof (cases ys rule: b64_encode.cases)
    case 1
    with "2.prems" show ?thesis by simp
  next
    case (2 a')
    with "2.prems" have "a < 256" "a' < 256" by simp_all
    moreover from "2.prems"(3) 2 have "b64_encode [a] = b64_encode [a']" by (simp only:)
    ultimately have "a = a'" by (rule one_byte_inj)
    with 2 show ?thesis by simp
  next
    case (3 a' b')
    with "2.prems"(3) have "b64_encode [a] = b64_encode [a', b']" by (simp only:)
    with one_byte_not_two [of a a' b'] show ?thesis by contradiction
  next
    case (4 a' b' c' bytes)
    with "2.prems"(2) have "c' < 256" by simp
    from "2.prems"(3) 4 have "b64_encode [a] = b64_encode (a' # b' # c' # bytes)" by (simp only:)
    with one_byte_not_three [OF \<open>c' < 256\<close>, of a a' b' bytes] show ?thesis by contradiction
  qed
next
  case (3 a b)
  show ?case
  proof (cases ys rule: b64_encode.cases)
    case 1
    with "3.prems" show ?thesis by simp
  next
    case (2 a')
    with "3.prems"(3) have "b64_encode [a'] = b64_encode [a, b]" by (simp only:)
    with one_byte_not_two [of a' a b] show ?thesis by contradiction
  next
    case (3 a' b')
    with "3.prems" have "a < 256" "a' < 256" "b < 256" "b' < 256" by simp_all
    moreover from "3.prems"(3) 3 have "b64_encode [a, b] = b64_encode [a', b']" by (simp only:)
    ultimately have "a = a' \<and> b = b'" by (rule two_bytes_inj)
    with 3 show ?thesis by simp
  next
    case (4 a' b' c' bytes)
    with "3.prems"(3) have "b64_encode [a, b] = b64_encode (a' # b' # c' # bytes)" by (simp only:)
    with two_bytes_not_three [of a b a' b' c' bytes] show ?thesis by contradiction
  qed
next
  case (4 a b c bytes)
  show ?case
  proof (cases ys rule: b64_encode.cases)
    case 1
    with "4.prems" show ?thesis by simp
  next
    case (2 a')
    from "4.prems"(1) have "c < 256" by simp
    from "4.prems"(3) 2 have "b64_encode [a'] = b64_encode (a # b # c # bytes)" by (simp only:)
    with one_byte_not_three [OF \<open>c < 256\<close>, of a' a b bytes] show ?thesis by contradiction
  next
    case (3 a' b')
    with "4.prems"(3) have "b64_encode [a', b'] = b64_encode (a # b # c # bytes)" by (simp only:)
    with two_bytes_not_three [of a' b' a b c bytes] show ?thesis by contradiction
  next
    case (4 a' b' c' bytes')
    with "4.prems" have bounds: "a < 256" "a' < 256" "b < 256" "b' < 256" "c < 256" "c' < 256"
      and tails: "list_all (\<lambda>x. x < 256) bytes" "list_all (\<lambda>x. x < 256) bytes'"
      by simp_all
    from "4.prems"(3) 4 have "b64_encode (a # b # c # bytes) = b64_encode (a' # b' # c' # bytes')"
      by (simp only:)
    from three_bytes_inj [OF bounds this]
    have heads: "a = a' \<and> b = b' \<and> c = c'" and rest: "b64_encode bytes = b64_encode bytes'"
      by simp_all
    from "4.IH" [OF tails rest] have "bytes = bytes'" .
    with heads 4 show ?thesis by simp
  qed
qed

lemma btoa_inj: "btoa s = btoa t \<Longrightarrow> s = t"
proof -
  assume "btoa s = btoa t"
  then have "b64_encode (map of_char s) = b64_encode (map of_char t)"
    by (simp only: btoa_def)
  moreover have "list_all (\<lambda>x. x < 256) (map (of_char :: char \<Rightarrow> nat) s)"
    "list_all (\<lambda>x. x < 256) (map (of_char :: char \<Rightarrow> nat) t)"
    by (simp_all add: list_all_iff)
  ultimately have "map (of_char :: char \<Rightarrow> nat) s = map of_char t"
    by (intro b64_encode_inj)
  then show ?thesis
    by (simp add: inj_map_eq_map [OF inj_of_char])
qed

lemmas enumerate_properties =
  own_properties_def created_def is_array_index_def is_digit_def digits_value_def Let_def

text \<open>
  Claim C2, amended. The cache key is a function of the endpoint URL and of the text
  that \<open>JSON.stringify\<close> gives for the parameter record: for one URL, two parameter
  records get the same cache key exactly when their JSON texts are the same.
  Nothing in the cache layer normalises the record; the text lists the properties
  in JavaScript's enumeration order (array-index keys ascending, then the other
  keys in insertion order), so two records whose properties enumerate to the same
  sequence of pairs get the same key.
\<close>

theorem generateCacheKey_equal_iff_same_text:
  "(generateCacheKey url p = generateCacheKey url q \<longleftrightarrow> paramString p = paramString q)
   \<and> (own_properties ps = own_properties qs
        \<longrightarrow> generateCacheKey url (Some ps) = generateCacheKey url (Some qs))"
proof (intro conjI impI)
  show "generateCacheKey url p = generateCacheKey url q \<longleftrightarrow> paramString p = paramString q"
  proof
    assume "generateCacheKey url p = generateCacheKey url q"
    then have "btoa (paramString p) = btoa (paramString q)"
      by (simp add: generateCacheKey_def)
    then show "paramString p = paramString q"
      by (rule btoa_inj)
  next
    assume "paramString p = paramString q"
    then show "generateCacheKey url p = generateCacheKey url q"
      by (simp add: generateCacheKey_def)
  qed
next
  assume "own_properties ps = own_properties qs"
  then have "paramString (Some ps) = paramString (Some qs)"
    by (simp add: paramString_def)
  then show "generateCacheKey url (Some ps) = generateCacheKey url (Some qs)"
    by (simp add: generateCacheKey_def)
qed

theorem generateCacheKey_equal_iff_same_text_witness:
  "own_properties [(''2'', JNum (1::int)), (''1'', JNum 2)]
     = own_properties [(''1'', JNum 2), (''2'', JNum 1)]
   \<and> generateCacheKey ''/api/filters'' (Some [(''2'', JNum 1), (''1'', JNum 2)])
     = generateCacheKey ''/api/filters'' (Some [(''1'', JNum 2), (''2'', JNum 1)])
   \<and> paramString (Some [(''a'', JNum 1), (''b'', JNum 2)])
     \<noteq> paramString (Some [(''b'', JNum 2), (''a'', JNum 1)])
   \<and> generateCacheKey ''/api/filters'' (Some [(''a'', JNum 1), (''b'', JNum 2)])
     \<noteq> generateCacheKey ''/api/filters'' (Some [(''b'', JNum 2), (''a'', JNum 1)])"
  using generateCacheKey_equal_iff_same_text
          [of "''/api/filters''" "Some [(''a'', JNum 1), (''b'', JNum 2)]"
              "Some [(''b'', JNum 2), (''a'', JNum 1)]"
              "[(''2'', JNum 1), (''1'', JNum 2)]" "[(''1'', JNum 2), (''2'', JNum 1)]"]
  by (simp add: paramString_def quote_def escape_char_def print_number enumerate_properties)

text \<open>
  Claim C2 as stated fails: the records \<open>{page: 1, limit: 20}\<close> and
  \<open>{limit: 20, page: 1}\<close> hold the same pairs and get different keys for the same
  endpoint.
\<close>

theorem generateCacheKey_depends_on_key_order:
  "generateCacheKey ''/api/apartments'' (Some [(''page'', JNum 1), (''limit'', JNum 20)])
     \<noteq> generateCacheKey ''/api/apartments'' (Some [(''limit'', JNum 20), (''page'', JNum 1)])"
proof
  assume "generateCacheKey ''/api/apartments'' (Some [(''page'', JNum 1), (''limit'', JNum 20)])
     = generateCacheKey ''/api/apartments'' (Some [(''limit'', JNum 20), (''page'', JNum 1)])"
  then have "btoa (paramString (Some [(''page'', JNum 1), (''limit'', JNum 20)]))
     = btoa (paramString (Some [(''limit'', JNum 20), (''page'', JNum 1)]))"
    by (simp add: generateCacheKey_def)
  then have "paramString (Some [(''page'', JNum 1), (''limit'', JNum 20)])
     = paramString (Some [(''limit'', JNum 20), (''page'', JNum 1)])"
    by (rule btoa_inj)
  then show False
    by (simp add: paramString_def quote_def escape_char_def print_number enumerate_properties)
qed

section \<open>URL synchronisation\<close>

text \<open>Reading back a printed number.\<close>

lemma of_char_digit_char: "d < 10 \<Longrightarrow> (of_char (digit_char d) :: nat) = 48 + d"
  by (simp add: digit_char_def)

lemma is_digit_digit_char: "d < 10 \<Longrightarrow> is_digit (digit_char d)"
  by (simp add: is_digit_def of_char_digit_char)

lemma nat_toString_nonempty: "nat_toString n \<noteq> []"
  by (subst nat_toString.simps) simp

lemma nat_toString_digits: "list_all is_digit (nat_toString n)"
proof (induction n rule: nat_toString.induct)
  case (1 n)
  show ?case
  proof (cases "n < 10")
    case True
    then show ?thesis by (simp add: nat_toString_digit is_digit_digit_char)
  next
    case False
    with 1 show ?thesis by (simp add: nat_toString_more is_digit_digit_char)
  qed
qed

lemma digits_value_snoc:
  "digits_value (s @ [c]) = 10 * digits_value s + ((of_char c :: nat) - 48)"
  by (simp add: digits_value_def)

lemma digits_value_nat_toString: "digits_value (nat_toString n) = n"
proof (induction n rule: nat_toString.induct)
  case (1 n)
  show ?case
  proof (cases "n < 10")
    case True
    then show ?thesis
      by (simp add: nat_toString_digit digits_value_def of_char_digit_char)
  next
    case False
    with 1 have "digits_value (nat_toString (n div 10)) = n div 10" by simp
    with False show ?thesis
      by (simp add: nat_toString_more digits_value_snoc of_char_digit_char)
  qed
qed

lemma minus_not_digit: "\<not> is_digit CHR ''-''"
  by (simp add: is_digit_def)

lemma nat_toString_no_sign: "nat_toString n = c # cs \<Longrightarrow> c \<noteq> CHR ''-''"
  using nat_toString_digits [of n] minus_not_digit by auto

lemma num_toString_nonempty: "num_toString i \<noteq> []"
  by (simp add: num_toString_def nat_toString_nonempty)

text \<open>The query that is written and read, for every pair of platform functions.\<close>

lemma map_filter_reads_back:
  "list_all (reads_back toStr toNum) rs \<Longrightarrow> List.map_filter toNum (map toStr rs) = rs"
  by (induction rs) (simp_all add: List.map_filter_def reads_back_def)

lemma route_query_update:
  "route_query (updateUrlWithFilters toStr fs d) = build_query toStr fs d"
  by (simp add: route_query_def updateUrlWithFilters_def Let_def)

lemma parse_range_price:
  assumes "reads_back toStr toNum (fst (priceRange fs))"
    and "reads_back toStr toNum (snd (priceRange fs))"
  shows "parse_range toNum (build_query toStr fs d) ''priceMin'' ''priceMax''
           = recovered_range (priceRange fs) (priceRange d)"
  using assms by (simp add: parse_range_def build_query_def recovered_range_def reads_back_def)

lemma parse_range_area:
  assumes "reads_back toStr toNum (fst (areaRange fs))"
    and "reads_back toStr toNum (snd (areaRange fs))"
  shows "parse_range toNum (build_query toStr fs d) ''areaMin'' ''areaMax''
           = recovered_range (areaRange fs) (areaRange d)"
  using assms by (simp add: parse_range_def build_query_def recovered_range_def reads_back_def)

lemma parse_range_floors:
  assumes "reads_back toStr toNum (fst (floors fs))"
    and "reads_back toStr toNum (snd (floors fs))"
  shows "parse_range toNum (build_query toStr fs d) ''floorMin'' ''floorMax''
           = recovered_range (floors fs) (floors d)"
  using assms by (simp add: parse_range_def build_query_def recovered_range_def reads_back_def)

lemma parse_rooms_built:
  assumes "list_all (reads_back toStr toNum) (rooms fs)"
  shows "parse_rooms toNum (build_query toStr fs d) = recovered_rooms (rooms fs)"
  using assms
  by (simp add: parse_rooms_def build_query_def recovered_rooms_def map_filter_reads_back Let_def)

lemma parseFiltersFromUrl_alt:
  "parseFiltersFromUrl toNum q =
     (let pf = \<lparr>p_priceRange = parse_range toNum q ''priceMin'' ''priceMax'',
                p_areaRange = parse_range toNum q ''areaMin'' ''areaMax'',
                p_rooms = parse_rooms toNum q,
                p_floors = parse_range toNum q ''floorMin'' ''floorMax''\<rparr>
      in if no_dimension pf then None else Some pf)"
  by (cases q) (simp_all add: parseFiltersFromUrl_def no_dimension_def parse_range_def
      parse_rooms_def Let_def)

text \<open>
  Whatever the filters are, parsing the query that was written gives back the ranges
  that differ from their defaults and are not inverted, and the positive rooms in
  ascending order.
\<close>

lemma parse_built:
  assumes "list_all (reads_back toStr toNum) (numbers_of fs)"
  shows "parseFiltersFromUrl toNum (route_query (updateUrlWithFilters toStr fs d)) =
     (if no_dimension (recovered fs d) then None else Some (recovered fs d))"
  using assms
  by (simp add: parseFiltersFromUrl_alt route_query_update parse_range_price parse_range_area
      parse_range_floors parse_rooms_built recovered_def numbers_of_def Let_def)

lemma recovered_within_metadata:
  assumes "within_metadata md fs" and "list_all (\<lambda>r. 0 < r) (roomsAvailable md)"
  shows "recovered fs d = spec_nondefault fs d"
proof -
  have "\<forall>r \<in> set (rooms fs). 0 < r"
    using assms by (auto simp: within_metadata_def list_all_iff)
  then have "filter (\<lambda>r. r > 0) (rooms fs) = rooms fs"
    by (simp add: filter_id_conv)
  moreover have "(sort (rooms fs) = []) = (rooms fs = [])"
    using length_sort [of "\<lambda>r. r" "rooms fs"] by (metis length_0_conv)
  ultimately have "recovered_rooms (rooms fs) =
      (if rooms fs \<noteq> [] then Some (JArr (map JNum (sort (rooms fs)))) else None)"
    by (simp add: recovered_rooms_def Let_def)
  moreover have "fst (priceRange fs) \<le> snd (priceRange fs)"
    and "fst (areaRange fs) \<le> snd (areaRange fs)"
    and "fst (floors fs) \<le> snd (floors fs)"
    using assms(1) by (simp_all add: within_metadata_def accepted_range_def)
  ultimately show ?thesis
    by (simp add: recovered_def spec_nondefault_def recovered_range_def prod_eq_iff)
qed

text \<open>The instance of the platform functions reads back every integer it prints.\<close>

lemma fraction_digits_zero: "fraction_digits k 0 = []"
  by (cases k) simp_all

lemma fraction_digits_numeral:
  "fraction_digits (numeral k) x =
     (if x = 0 then []
      else digit_char (nat \<lfloor>10 * x\<rfloor>)
           # fraction_digits (pred_numeral k) (10 * x - of_int \<lfloor>10 * x\<rfloor>))"
  by (simp add: numeral_eq_Suc)

lemma decimal_toString_of_int: "decimal_toString (of_int i) = num_toString i"
proof -
  have "\<bar>of_int i :: real\<bar> = of_int \<bar>i\<bar>"
    by simp
  then show ?thesis
    by (simp add: decimal_toString_def num_toString_def Let_def del: of_int_abs)
qed

lemma digits_value_Nil: "digits_value [] = 0"
  by (simp add: digits_value_def)

lemma unsigned_decimal_nat_toString: "unsigned_decimal (nat_toString n) = Some (real n)"
proof -
  have all: "\<forall>c \<in> set (nat_toString n). is_digit c"
    using nat_toString_digits [of n] by (simp add: list_all_iff)
  then have whole: "takeWhile is_digit (nat_toString n) = nat_toString n"
    and rest: "dropWhile is_digit (nat_toString n) = []"
    by simp_all
  show ?thesis
    unfolding unsigned_decimal_def Let_def whole rest
    by (simp add: nat_toString_nonempty digits_value_nat_toString read_exponent_def scale_def
        digits_value_Nil)
qed

lemma digit_not_space: "is_digit c \<Longrightarrow> \<not> is_space c"
  by (auto simp: is_digit_def is_space_def)

lemma trim_id:
  assumes "s \<noteq> []" and "\<not> is_space (hd s)" and "\<not> is_space (last s)"
  shows "trim s = s"
proof -
  have "dropWhile is_space s = s"
    using assms(2) by (simp add: dropWhile_eq_self_iff)
  moreover have "dropWhile is_space (rev s) = rev s"
    using assms(1,3) by (simp add: dropWhile_eq_self_iff hd_rev)
  ultimately show ?thesis
    by (simp add: trim_def)
qed

lemma nat_toString_ends: "is_digit (hd (nat_toString n))" "is_digit (last (nat_toString n))"
  using nat_toString_digits [of n] nat_toString_nonempty [of n]
  by (simp_all add: list_all_iff)

lemma decimal_Number_num_toString: "decimal_Number (num_toString i) = Some (of_int i)"
proof (cases "i < 0")
  case True
  have "\<not> is_space CHR ''-''"
    by (simp add: is_space_def)
  moreover have "\<not> is_space (last (nat_toString (nat (- i))))"
    using nat_toString_ends(2) [of "nat (- i)"] by (rule digit_not_space)
  ultimately have
    "trim (CHR ''-'' # nat_toString (nat (- i))) = CHR ''-'' # nat_toString (nat (- i))"
    using nat_toString_nonempty [of "nat (- i)"]
    by (intro trim_id) simp_all
  with True show ?thesis
    by (simp add: decimal_Number_def num_toString_def read_sign_def
        unsigned_decimal_nat_toString)
next
  case False
  obtain c cs where shape: "nat_toString (nat i) = c # cs"
    using nat_toString_nonempty [of "nat i"] by (cases "nat_toString (nat i)") auto
  have digit: "is_digit c"
    using nat_toString_digits [of "nat i"] shape by simp
  then have sign: "c \<noteq> CHR ''-''" "c \<noteq> CHR ''+''"
    by (auto simp: is_digit_def)
  have "trim (nat_toString (nat i)) = nat_toString (nat i)"
    using nat_toString_ends [of "nat i"] nat_toString_nonempty [of "nat i"]
    by (intro trim_id) (simp_all add: digit_not_space)
  then have trimmed: "trim (c # cs) = c # cs"
    using shape by simp
  have "unsigned_decimal (c # cs) = Some (real (nat i))"
    using unsigned_decimal_nat_toString [of "nat i"] shape by simp
  then show ?thesis
    using False shape sign trimmed
    by (simp add: decimal_Number_def num_toString_def read_sign_def)
qed

lemma decimal_reads_back_of_int: "reads_back decimal_toString decimal_Number (of_int i)"
  by (simp add: reads_back_def decimal_toString_of_int decimal_Number_num_toString
      num_toString_nonempty)

lemma decimal_reads_back_numeral:
  "reads_back decimal_toString decimal_Number (numeral k)"
  "reads_back decimal_toString decimal_Number 0"
  "reads_back decimal_toString decimal_Number 1"
  using decimal_reads_back_of_int [of "numeral k"] decimal_reads_back_of_int [of 0]
    decimal_reads_back_of_int [of 1]
  by simp_all

text \<open>
  Claim C7. Let the filters be within the metadata bounds, the room counts that the
  metadata offers be positive, and the platform print each number of the filters
  as a non-empty text that \<open>Number\<close> reads back as that number. Then, for every
  defaults object, parsing the query that \<open>updateUrlWithFilters(filters, defaults)\<close>
  writes gives back exactly the dimensions that differ from the defaults: each of
  price, area and floors with its two bounds when it is not its default, the rooms
  whenever there is one (the selected rooms, in ascending order), nothing for a
  dimension that equals its default, and \<open>null\<close> when no dimension differs.
\<close>

theorem url_round_trip:
  assumes "within_metadata md fs"
    and "list_all (\<lambda>r. 0 < r) (roomsAvailable md)"
    and "list_all (reads_back toStr toNum) (numbers_of fs)"
  shows "parseFiltersFromUrl toNum (route_query (updateUrlWithFilters toStr fs d)) =
     (if no_dimension (spec_nondefault fs d) then None else Some (spec_nondefault fs d))"
  using parse_built [OF assms(3), of d] recovered_within_metadata [OF assms(1,2), of d]
  by simp

theorem url_round_trip_witness:
  "within_metadata default_metadata narrowed
   \<and> list_all (\<lambda>r. 0 < r) (roomsAvailable default_metadata)
   \<and> list_all (reads_back decimal_toString decimal_Number) (numbers_of narrowed)
   \<and> route_query (updateUrlWithFilters decimal_toString narrowed url_defaults) =
       [(''priceMin'', QStr ''5000000''), (''priceMax'', QStr ''10000000''),
        (''areaMin'', QStr ''25.5''), (''areaMax'', QStr ''150''),
        (''rooms'', QArr [''3'', ''1''])]
   \<and> parseFiltersFromUrl decimal_Number
         (route_query (updateUrlWithFilters decimal_toString narrowed url_defaults)) =
       Some \<lparr>p_priceRange = Some (JArr [JNum 5000000, JNum 10000000]),
             p_areaRange = Some (JArr [JNum 25.5, JNum 150]),
             p_rooms = Some (JArr [JNum 1, JNum 3]), p_floors = None\<rparr>"
  using url_round_trip [of default_metadata narrowed decimal_toString decimal_Number url_defaults]
  by (simp add: within_metadata_def accepted_range_def default_metadata_def narrowed_def
      url_defaults_def numbers_of_def spec_nondefault_def no_dimension_def route_query_update
      build_query_def reads_back_def decimal_toString_def decimal_Number_def
      unsigned_decimal_def trim_def is_space_def read_sign_def read_exponent_def scale_def
      fraction_digits_numeral fraction_digits_zero is_digit_def digits_value_def
      print_number Let_def)

end
